theory Spec2Isabelle
  imports Complex_Main
begin

section \<open>Data model\<close>

text \<open>
  The program is \<^verbatim>\<open>src/pages/index.tsx\<close>: the classes \<^verbatim>\<open>MatchClassifier\<close>,
  \<^verbatim>\<open>PortfolioGenerator\<close> and \<^verbatim>\<open>PortfolioValidator\<close>. JavaScript numbers are
  modelled as exact reals: sums, products and comparisons are those of the reals, so
  rounding is outside the model, and so are signed zeros. The one place where the
  source can leave the finite numbers from finite inputs is the renormalising division
  of \<^verbatim>\<open>aplicarCalibracionBayesiana\<close>, whose result is therefore a \<open>number\<close>.
\<close>

datatype resultado = L | E | V

datatype clasificacion = Ancla | Divisor | TendenciaEmpate | Neutro

datatype number = Num real | Infinity | NegInfinity | NaN

datatype error = TypeError

text \<open>
  The three probability fields are shared by the raw match, the calibrated match and
  the classified match, which the source keeps in plain objects.
\<close>

record 'n probs =
  prob_local :: 'n
  prob_empate :: 'n
  prob_visitante :: 'n

text \<open>
  A raw match. \<open>forma_diferencia\<close> and \<open>lesiones_impact\<close> may be missing
  (\<open>None\<close>); the team names are not read by the modelled functions.
\<close>

record partido = "real probs" +
  es_final :: bool
  forma_diferencia :: "real option"
  lesiones_impact :: "real option"

text \<open>
  A classified match as \<^verbatim>\<open>classifyMatches\<close> builds it; \<open>id\<close>, the team names and
  \<open>confianza\<close> are not read by the generator.
\<close>

record partidoClasificado = "real probs" +
  clasificacion :: clasificacion
  resultadoSugerido :: resultado

text \<open>An entry of \<^verbatim>\<open>partidosDivisor\<close>: a classified match with its position.\<close>

record partidoDivisor = partidoClasificado +
  index :: nat

text \<open>An entry of the candidate arrays of \<^verbatim>\<open>ajustarEmpates\<close>.\<close>

record candidato =
  c_index :: nat
  prob :: real

text \<open>
  A ticket as the validator reads it: its outcomes and its hit-probability estimate
  (\<open>None\<close> when the field is missing).
\<close>

record quiniela =
  resultados :: "resultado list"
  prob_11_plus :: "real option"

text \<open>
  The validator's messages. The source renders each as a string with
  \<^verbatim>\<open>toFixed\<close>; the model keeps the values that the string is made of: for a
  distribution message the outcome, its share and the bound it misses; for a draw-count
  message the 1-based ticket number and the draw count; for a concentration message the
  1-based match number, the concentration, the concentrated outcome and the limit. The
  two aggregated errors carry the messages whose texts they join.
\<close>

datatype mensaje =
  NoHayQuinielas
  | DistribucionMuyBaja resultado real real
  | DistribucionLigeramenteBaja resultado real real
  | DistribucionMuyAlta resultado real real
  | DistribucionLigeramenteAlta resultado real real
  | EmpatesBajoMinimo nat nat
  | EmpatesSobreMaximo nat nat
  | MuchasFueraDeRango "mensaje list"
  | Concentracion nat real resultado real
  | MultiplesViolaciones "mensaje list"
  | DemasiadasAdvertencias

text \<open>The object \<open>metricas\<close>; a field is \<open>None\<close> until the validator sets it.\<close>

record metricas =
  distribucion_global :: "(number \<times> number \<times> number) option"
  empates_promedio :: "number option"
  empates_rango :: "(number \<times> number) option"
  prob_11_plus_promedio :: "real option"
  prob_11_plus_max :: "real option"
  prob_11_plus_min :: "real option"
  prob_portafolio_11_plus :: "real option"
  costo_total :: "real option"
  eficiencia :: "real option"

record validacion =
  es_valido :: bool
  warnings :: "mensaje list"
  errores :: "mensaje list"
  metricas :: metricas

section \<open>Configuration\<close>

definition EMPATES_MIN :: nat where "EMPATES_MIN = 4"
definition EMPATES_MAX :: nat where "EMPATES_MAX = 6"
definition RANGOS_HISTORICOS :: "resultado \<Rightarrow> real \<times> real" where
  "RANGOS_HISTORICOS k =
     (case k of L \<Rightarrow> (0.35, 0.41) | E \<Rightarrow> (0.25, 0.33) | V \<Rightarrow> (0.30, 0.36))"

definition CONCENTRACION_MAX_GENERAL :: real where "CONCENTRACION_MAX_GENERAL = 0.70"
definition CONCENTRACION_MAX_INICIAL :: real where "CONCENTRACION_MAX_INICIAL = 0.60"
definition k1_forma :: real where "k1_forma = 0.15"
definition k2_lesiones :: real where "k2_lesiones = 0.10"
definition k3_contexto :: real where "k3_contexto = 0.20"
definition umbral_diferencia :: real where "umbral_diferencia = 0.08"
definition boost_empate :: real where "boost_empate = 0.06"

section \<open>Library functions of the source language\<close>

text \<open>\<^verbatim>\<open>Math.max(...xs)\<close> on a non-empty array.\<close>

fun Math_max :: "real list \<Rightarrow> real" where
  "Math_max (x # xs) = foldl max x xs"

text \<open>
  Division of two finite numbers: a zero divisor gives \<open>NaN\<close> or an infinity,
  never an exception.
\<close>

definition js_div :: "real \<Rightarrow> real \<Rightarrow> number" where
  "js_div x y =
     (if y \<noteq> 0 then Num (x / y)
      else if x = 0 then NaN
      else if x > 0 then Infinity
      else NegInfinity)"

text \<open>
  \<^verbatim>\<open>Object.keys(o).reduce((a, b) => o[a] > o[b] ? a : b)\<close> on an object with the keys
  \<open>L\<close>, \<open>E\<close>, \<open>V\<close> in this order: the reduction starts at the first key.
\<close>

definition reduce_keys :: "(resultado \<Rightarrow> 'a::linorder) \<Rightarrow> resultado" where
  "reduce_keys obj = foldl (\<lambda>a b. if obj a > obj b then a else b) L [E, V]"

text \<open>
  \<^verbatim>\<open>xs.sort((a, b) => b.prob - a.prob)\<close> and \<^verbatim>\<open>xs.sort((a, b) => a.prob - b.prob)\<close>:
  the sort of the language is stable, as insertion sort by key is.
\<close>

definition sort_desc :: "('a \<Rightarrow> real) \<Rightarrow> 'a list \<Rightarrow> 'a list" where
  "sort_desc f xs = sort_key (\<lambda>x. - f x) xs"

definition sort_asc :: "('a \<Rightarrow> real) \<Rightarrow> 'a list \<Rightarrow> 'a list" where
  "sort_asc f xs = sort_key f xs"

section \<open>MatchClassifier\<close>

record MatchClassifier =
  umbralAncla :: real
  umbralDivisorMin :: real
  umbralDivisorMax :: real
  umbralEmpate :: real

definition constructor :: MatchClassifier where
  "constructor =
     \<lparr>umbralAncla = 0.60, umbralDivisorMin = 0.40, umbralDivisorMax = 0.60,
      umbralEmpate = 0.30\<rparr>"

definition factorAjuste :: "partido \<Rightarrow> real" where
  "factorAjuste partido =
     (let deltaForma = (case forma_diferencia partido of None \<Rightarrow> 0 | Some d \<Rightarrow> d);
          lesionesImpact = (case lesiones_impact partido of None \<Rightarrow> 0 | Some d \<Rightarrow> d);
          contexto = (if es_final partido then 1.0 else 0.0)
      in 1 + k1_forma * deltaForma + k2_lesiones * lesionesImpact + k3_contexto * contexto)"

text \<open>
  The first half of \<^verbatim>\<open>aplicarCalibracionBayesiana\<close>: the values of the variables
  \<open>probLocal\<close>, \<open>probEmpate\<close> and \<open>probVisitante\<close> when the renormalisation starts.
\<close>

definition probsAjustadas :: "partido \<Rightarrow> real \<times> real \<times> real" where
  "probsAjustadas partido =
     (let f = factorAjuste partido;
          probLocal = prob_local partido * f;
          probEmpate = prob_empate partido;
          probVisitante = prob_visitante partido / max f 0.1;
          probEmpate' =
            (if \<bar>probLocal - probVisitante\<bar> < umbral_diferencia
                \<and> probEmpate > max probLocal probVisitante
             then min (probEmpate + boost_empate) 0.95
             else probEmpate)
      in (probLocal, probEmpate', probVisitante))"

text \<open>The variable \<open>total\<close> of \<^verbatim>\<open>aplicarCalibracionBayesiana\<close>.\<close>

definition total_ajustado :: "partido \<Rightarrow> real" where
  "total_ajustado partido = (case probsAjustadas partido of (l, e, v) \<Rightarrow> l + e + v)"

definition aplicarCalibracionBayesiana :: "partido \<Rightarrow> number probs" where
  "aplicarCalibracionBayesiana partido =
     (case probsAjustadas partido of (probLocal, probEmpate, probVisitante) \<Rightarrow>
        \<lparr>prob_local = js_div probLocal (total_ajustado partido),
         prob_empate = js_div probEmpate (total_ajustado partido),
         prob_visitante = js_div probVisitante (total_ajustado partido)\<rparr>)"

definition clasificarPartido ::
  "MatchClassifier \<Rightarrow> (real, 'a) probs_scheme \<Rightarrow> clasificacion" where
  "clasificarPartido this partido =
     (let maxProb = Math_max [prob_local partido, prob_empate partido, prob_visitante partido]
      in if maxProb > umbralAncla this then Ancla
         else if prob_empate partido > umbralEmpate this
                 \<and> prob_empate partido \<ge> max (prob_local partido) (prob_visitante partido)
              then TendenciaEmpate
         else if maxProb \<ge> umbralDivisorMin this \<and> maxProb < umbralDivisorMax this
              then Divisor
         else Neutro)"

text \<open>The object \<open>probs\<close> of \<^verbatim>\<open>getResultadoSugerido\<close>.\<close>

definition probs_de :: "(real, 'a) probs_scheme \<Rightarrow> resultado \<Rightarrow> real" where
  "probs_de partido k =
     (case k of L \<Rightarrow> prob_local partido | E \<Rightarrow> prob_empate partido
      | V \<Rightarrow> prob_visitante partido)"

definition getResultadoSugerido :: "(real, 'a) probs_scheme \<Rightarrow> resultado" where
  "getResultadoSugerido partido = reduce_keys (probs_de partido)"

text \<open>
  The claim about the classification, in the words of the specification: the maximum
  of the three probabilities, and the four rules in their order.
\<close>

definition clasificacion_spec :: "(real, 'a) probs_scheme \<Rightarrow> clasificacion" where
  "clasificacion_spec p =
     (let m = Max {prob_local p, prob_empate p, prob_visitante p}
      in if m > 0.60 then Ancla
         else if prob_empate p > 0.30 \<and> prob_empate p \<ge> prob_local p
                 \<and> prob_empate p \<ge> prob_visitante p then TendenciaEmpate
         else if 0.40 \<le> m \<and> m < 0.60 then Divisor
         else Neutro)"

text \<open>The position of an outcome in the enumeration order Home, Draw, Away.\<close>

fun orden :: "resultado \<Rightarrow> nat" where
  "orden L = 0"
| "orden E = 1"
| "orden V = 2"

section \<open>PortfolioGenerator\<close>

text \<open>
  The loop of \<^verbatim>\<open>crearQuinielaBase\<close>; its first argument is the counter
  \<open>empatesActuales\<close>, which the source increments in the branch that forces a draw
  and again after the branch whenever the outcome is a draw.
\<close>

fun baseLoop :: "nat \<Rightarrow> 'a partidoClasificado_scheme list \<Rightarrow> resultado list" where
  "baseLoop empatesActuales [] = []"
| "baseLoop empatesActuales (partido # resto) =
     (let (resultado, empatesTrasRama) =
            (if clasificacion partido = Ancla
             then (resultadoSugerido partido, empatesActuales)
             else if clasificacion partido = TendenciaEmpate \<and> empatesActuales < EMPATES_MAX
             then (E, empatesActuales + 1)
             else (resultadoSugerido partido, empatesActuales));
          empatesSiguiente =
            (if resultado = E then empatesTrasRama + 1 else empatesTrasRama)
      in resultado # baseLoop empatesSiguiente resto)"

definition crearQuinielaBase :: "'a partidoClasificado_scheme list \<Rightarrow> resultado list" where
  "crearQuinielaBase partidosClasificados = baseLoop 0 partidosClasificados"

definition getResultadoAlternativo :: "(real, 'a) probs_scheme \<Rightarrow> resultado" where
  "getResultadoAlternativo partido =
     (let probs = [(L, prob_local partido), (E, prob_empate partido),
                   (V, prob_visitante partido)]
      in fst (sort_desc snd probs ! 1))"

text \<open>
  \<^verbatim>\<open>partidosClasificados[i].prob_empate\<close>: reading a field of an entry that is not
  there throws a \<open>TypeError\<close>.
\<close>

definition leer :: "'a list \<Rightarrow> nat \<Rightarrow> error + 'a" where
  "leer xs i = (if i < length xs then Inr (xs ! i) else Inl TypeError)"

text \<open>
  The two collecting loops of \<^verbatim>\<open>ajustarEmpates\<close>, from slot \<open>i\<close> on. The field
  \<open>index\<close> of a candidate is \<open>c_index\<close> here. The test \<open>r \<noteq> E\<close> comes first, so
  the match of a slot that fails it is not read.
\<close>

fun candidatosFaltantes ::
  "nat \<Rightarrow> resultado list \<Rightarrow> 'a partidoClasificado_scheme list \<Rightarrow> error + candidato list" where
  "candidatosFaltantes i [] ps = Inr []"
| "candidatosFaltantes i (r # rs) ps =
     (if r \<noteq> E then
        (case leer ps i of
           Inl e \<Rightarrow> Inl e
         | Inr p \<Rightarrow>
             (case candidatosFaltantes (Suc i) rs ps of
                Inl e \<Rightarrow> Inl e
              | Inr cs \<Rightarrow>
                  Inr (if prob_empate p > 0.20
                       then \<lparr>c_index = i, prob = prob_empate p\<rparr> # cs else cs)))
      else candidatosFaltantes (Suc i) rs ps)"

fun candidatosSobrantes ::
  "nat \<Rightarrow> resultado list \<Rightarrow> 'a partidoClasificado_scheme list \<Rightarrow> error + candidato list" where
  "candidatosSobrantes i [] ps = Inr []"
| "candidatosSobrantes i (r # rs) ps =
     (if r = E then
        (case leer ps i of
           Inl e \<Rightarrow> Inl e
         | Inr p \<Rightarrow>
             (case candidatosSobrantes (Suc i) rs ps of
                Inl e \<Rightarrow> Inl e
              | Inr cs \<Rightarrow> Inr (\<lparr>c_index = i, prob = prob_empate p\<rparr> # cs)))
      else candidatosSobrantes (Suc i) rs ps)"

definition ajustarEmpates ::
  "resultado list \<Rightarrow> 'a partidoClasificado_scheme list \<Rightarrow> error + resultado list" where
  "ajustarEmpates quiniela partidosClasificados =
     (let empatesActuales = length (filter (\<lambda>r. r = E) quiniela)
      in if empatesActuales < EMPATES_MIN then
           (let empatesNecesarios = EMPATES_MIN - empatesActuales
            in case candidatosFaltantes 0 quiniela partidosClasificados of
                 Inl e \<Rightarrow> Inl e
               | Inr candidatos \<Rightarrow>
                   Inr (foldl (\<lambda>q c. q[c_index c := E]) quiniela
                          (take (min empatesNecesarios (length candidatos))
                             (sort_desc prob candidatos))))
         else if empatesActuales > EMPATES_MAX then
           (let empatesExceso = empatesActuales - EMPATES_MAX
            in case candidatosSobrantes 0 quiniela partidosClasificados of
                 Inl e \<Rightarrow> Inl e
               | Inr candidatosEmpate \<Rightarrow>
                   Inr (foldl
                          (\<lambda>q c. q[c_index c :=
                                     resultadoSugerido (partidosClasificados ! c_index c)])
                          quiniela
                          (take (min empatesExceso (length candidatosEmpate))
                             (sort_asc prob candidatosEmpate))))
         else Inr quiniela)"

text \<open>
  \<^verbatim>\<open>partidosDivisor[parId % partidosDivisor.length]?.index || 0\<close>: with no entry the
  read is \<open>undefined\<close> and the pivot is 0.
\<close>

definition partidoPrincipal :: "'a partidoDivisor_scheme list \<Rightarrow> nat \<Rightarrow> nat" where
  "partidoPrincipal partidosDivisor parId =
     (if partidosDivisor = [] then 0
      else index (partidosDivisor ! (parId mod length partidosDivisor)))"

text \<open>
  The array \<open>partidosDivisor\<close> that \<^verbatim>\<open>generateSatelliteQuinielas\<close> passes on: the
  matches classified \<open>Divisor\<close>, each with its position.
\<close>

definition partidosDivisor_de :: "partidoClasificado list \<Rightarrow> partidoDivisor list" where
  "partidosDivisor_de partidosClasificados =
     filter (\<lambda>p. clasificacion p = Divisor)
       (map (\<lambda>(i, p). partidoClasificado.extend p (partidoDivisor.fields i))
          (enumerate 0 partidosClasificados))"

text \<open>
  One round of the loop of \<^verbatim>\<open>crearParSatelites\<close>: the outcomes pushed to
  \<open>quinielaA\<close> and \<open>quinielaB\<close> at slot \<open>i\<close>. \<open>random i\<close> is the value that
  \<^verbatim>\<open>Math.random()\<close> returns when the loop reaches slot \<open>i\<close>; the source draws at
  most one value per slot.
\<close>

definition parSlot ::
  "nat \<Rightarrow> (nat \<Rightarrow> real) \<Rightarrow> nat \<Rightarrow> 'a partidoClasificado_scheme \<Rightarrow> resultado \<times> resultado" where
  "parSlot pivote random i partido =
     (if i = pivote
      then (resultadoSugerido partido, getResultadoAlternativo partido)
      else if clasificacion partido = Ancla
      then (resultadoSugerido partido, resultadoSugerido partido)
      else if random i < 0.3
      then (resultadoSugerido partido, getResultadoAlternativo partido)
      else (resultadoSugerido partido, resultadoSugerido partido))"

definition parQuinielas ::
  "nat \<Rightarrow> (nat \<Rightarrow> real) \<Rightarrow> 'a partidoClasificado_scheme list
     \<Rightarrow> resultado list \<times> resultado list" where
  "parQuinielas pivote random partidosClasificados =
     (let par = map (\<lambda>(i, partido). parSlot pivote random i partido)
                  (enumerate 0 partidosClasificados)
      in (map fst par, map snd par))"

text \<open>
  \<^verbatim>\<open>crearParSatelites\<close> returns two ticket objects; the model returns their
  \<open>resultados\<close>. The other fields (\<open>id\<close>, \<open>tipo\<close>, \<open>par_id\<close> and the metrics
  computed from \<open>resultados\<close>) do not feed back into the outcomes.
\<close>

definition crearParSatelites ::
  "'a partidoClasificado_scheme list \<Rightarrow> 'b partidoDivisor_scheme list \<Rightarrow> nat
     \<Rightarrow> (nat \<Rightarrow> real) \<Rightarrow> error + resultado list \<times> resultado list" where
  "crearParSatelites partidosClasificados partidosDivisor parId random =
     (case parQuinielas (partidoPrincipal partidosDivisor parId) random partidosClasificados of
        (quinielaA, quinielaB) \<Rightarrow>
          (case ajustarEmpates quinielaA partidosClasificados of
             Inl e \<Rightarrow> Inl e
           | Inr a \<Rightarrow>
               (case ajustarEmpates quinielaB partidosClasificados of
                  Inl e \<Rightarrow> Inl e
                | Inr b \<Rightarrow> Inr (a, b))))"

section \<open>PortfolioValidator\<close>

text \<open>
  The draw count of a ticket, \<^verbatim>\<open>quiniela.filter(r => r === 'E').length\<close>, which the
  source stores in the field \<open>empates\<close>.
\<close>

definition empates :: "resultado list \<Rightarrow> nat" where
  "empates quiniela = length (filter (\<lambda>r. r = E) quiniela)"

text \<open>
  \<^verbatim>\<open>validarDistribucionGlobal\<close>: the counts of the three outcomes over all slots
  of all tickets, the check of one share against its historical range (the body of the
  loop over \<open>distribucionGlobal\<close>), and the function. With no ticket the three
  shares are \<open>0 / 0\<close>, and no comparison with \<open>NaN\<close> holds.
\<close>

definition conteos_globales :: "'a quiniela_scheme list \<Rightarrow> resultado \<Rightarrow> nat" where
  "conteos_globales quinielas =
     foldl (\<lambda>conteos q. foldl (\<lambda>c r. c(r := c r + 1)) conteos (resultados q))
       (\<lambda>k. 0) quinielas"

definition revisarProporcion :: "validacion \<Rightarrow> resultado \<times> real \<Rightarrow> validacion" where
  "revisarProporcion validacion entrada =
     (case entrada of (resultado, proporcion) \<Rightarrow>
        (case RANGOS_HISTORICOS resultado of (minVal, maxVal) \<Rightarrow>
           if proporcion < minVal then
             (if minVal - proporcion > 0.03
              then validacion\<lparr>errores := errores validacion
                     @ [DistribucionMuyBaja resultado proporcion minVal]\<rparr>
              else validacion\<lparr>warnings := warnings validacion
                     @ [DistribucionLigeramenteBaja resultado proporcion minVal]\<rparr>)
           else if proporcion > maxVal then
             (if proporcion - maxVal > 0.03
              then validacion\<lparr>errores := errores validacion
                     @ [DistribucionMuyAlta resultado proporcion maxVal]\<rparr>
              else validacion\<lparr>warnings := warnings validacion
                     @ [DistribucionLigeramenteAlta resultado proporcion maxVal]\<rparr>)
           else validacion))"

definition validarDistribucionGlobal ::
  "'a quiniela_scheme list \<Rightarrow> validacion \<Rightarrow> validacion" where
  "validarDistribucionGlobal quinielas validacion =
     (let totalPredicciones = real (length quinielas * 14);
          conteos = conteos_globales quinielas;
          registrada = validacion\<lparr>metricas := (metricas validacion)\<lparr>distribucion_global :=
            Some (js_div (real (conteos L)) totalPredicciones,
                  js_div (real (conteos E)) totalPredicciones,
                  js_div (real (conteos V)) totalPredicciones)\<rparr>\<rparr>
      in if totalPredicciones = 0 then registrada
         else foldl revisarProporcion registrada
                [(L, real (conteos L) / totalPredicciones),
                 (E, real (conteos E) / totalPredicciones),
                 (V, real (conteos V) / totalPredicciones)])"

text \<open>
  \<^verbatim>\<open>validarEmpatesIndividuales\<close>: the messages of the tickets outside the draw
  range, and the function.
\<close>

definition quinielasProblematicas :: "'a quiniela_scheme list \<Rightarrow> mensaje list" where
  "quinielasProblematicas quinielas =
     concat (map (\<lambda>(i, q).
                if empates (resultados q) < EMPATES_MIN
                then [EmpatesBajoMinimo (i + 1) (empates (resultados q))]
                else if empates (resultados q) > EMPATES_MAX
                then [EmpatesSobreMaximo (i + 1) (empates (resultados q))]
                else [])
       (enumerate 0 quinielas))"

definition validarEmpatesIndividuales ::
  "'a quiniela_scheme list \<Rightarrow> validacion \<Rightarrow> validacion" where
  "validarEmpatesIndividuales quinielas validacion =
     (let empatesPorQuiniela = map (\<lambda>q. empates (resultados q)) quinielas;
          problematicas = quinielasProblematicas quinielas;
          registrada = validacion\<lparr>metricas := (metricas validacion)\<lparr>
            empates_promedio :=
              Some (js_div (real (foldl (\<lambda>a b. a + b) 0 empatesPorQuiniela))
                      (real (length empatesPorQuiniela))),
            empates_rango :=
              Some (case empatesPorQuiniela of
                      [] \<Rightarrow> (Infinity, NegInfinity)
                    | e # es \<Rightarrow> (Num (real (foldl min e es)), Num (real (foldl max e es))))\<rparr>\<rparr>
      in if length problematicas > 0 then
           (if real (length problematicas) > real (length quinielas) * 0.1
            then registrada\<lparr>errores := errores registrada
                   @ [MuchasFueraDeRango (take 5 problematicas)]\<rparr>
            else registrada\<lparr>warnings := warnings registrada @ problematicas\<rparr>)
         else registrada)"

text \<open>\<^verbatim>\<open>Math.min(...xs)\<close> on a non-empty array.\<close>

fun Math_min :: "real list \<Rightarrow> real" where
  "Math_min (x # xs) = foldl min x xs"

text \<open>
  The object \<open>conteos\<close> of \<^verbatim>\<open>validarConcentracion\<close> after the inner loop over the
  tickets, for the slot \<open>partidoIdx\<close>.
\<close>

definition conteos_de :: "'a quiniela_scheme list \<Rightarrow> nat \<Rightarrow> resultado \<Rightarrow> nat" where
  "conteos_de quinielas partidoIdx =
     foldl (\<lambda>conteos q.
              if partidoIdx < length (resultados q)
              then conteos(resultados q ! partidoIdx := conteos (resultados q ! partidoIdx) + 1)
              else conteos)
       (\<lambda>k. 0) quinielas"

text \<open>The body of the outer loop: the message pushed for one slot, if any.\<close>

definition concentracionPartido :: "'a quiniela_scheme list \<Rightarrow> nat \<Rightarrow> mensaje list" where
  "concentracionPartido quinielas partidoIdx =
     (let conteos = conteos_de quinielas partidoIdx;
          maxConcentracion =
            Math_max [real (conteos L), real (conteos E), real (conteos V)]
              / real (length quinielas);
          limiteAplicable =
            (if partidoIdx < 3 then CONCENTRACION_MAX_INICIAL
             else CONCENTRACION_MAX_GENERAL)
      in if maxConcentracion > limiteAplicable
         then [Concentracion (partidoIdx + 1) maxConcentracion (reduce_keys conteos)
                 limiteAplicable]
         else [])"

definition concentracionesProblematicas :: "'a quiniela_scheme list \<Rightarrow> mensaje list" where
  "concentracionesProblematicas quinielas =
     concat (map (concentracionPartido quinielas) [0..<14])"

definition validarConcentracion ::
  "'a quiniela_scheme list \<Rightarrow> validacion \<Rightarrow> validacion" where
  "validarConcentracion quinielas validacion =
     (if length quinielas = 0 then validacion
      else
        (let cp = concentracionesProblematicas quinielas
         in if length cp > 0 then
              (if length cp > 3
               then validacion\<lparr>errores := errores validacion @ [MultiplesViolaciones (take 3 cp)]\<rparr>
               else validacion\<lparr>warnings := warnings validacion @ cp\<rparr>)
            else validacion))"

text \<open>\<^verbatim>\<open>quinielas.map(q => q.prob_11_plus || 0)\<close>.\<close>

definition probs11Plus :: "'a quiniela_scheme list \<Rightarrow> real list" where
  "probs11Plus quinielas =
     map (\<lambda>q. case prob_11_plus q of None \<Rightarrow> 0 | Some p \<Rightarrow> p) quinielas"

definition calcularMetricas ::
  "'a quiniela_scheme list \<Rightarrow> validacion \<Rightarrow> validacion" where
  "calcularMetricas quinielas validacion =
     (if length quinielas = 0 then validacion
      else
        (let ps = probs11Plus quinielas;
             probPortafolio = 1 - foldl (\<lambda>acc prob. acc * (1 - prob)) 1 ps;
             costoTotal = real (length quinielas) * 15
         in validacion\<lparr>metricas :=
              (metricas validacion)\<lparr>
                prob_11_plus_promedio := Some (foldl (\<lambda>a b. a + b) 0 ps / real (length ps)),
                prob_11_plus_max := Some (Math_max ps),
                prob_11_plus_min := Some (Math_min ps),
                prob_portafolio_11_plus := Some probPortafolio,
                costo_total := Some costoTotal,
                eficiencia := Some (probPortafolio / (costoTotal / 1000))\<rparr>\<rparr>))"

text \<open>
  The initial report of \<^verbatim>\<open>validatePortfolio\<close>, with the empty object
  \<open>metricas\<close>.
\<close>

definition validacion_inicial :: validacion where
  "validacion_inicial =
     \<lparr>es_valido = True, warnings = [], errores = [],
      metricas = \<lparr>distribucion_global = None, empates_promedio = None,
        empates_rango = None, prob_11_plus_promedio = None, prob_11_plus_max = None,
        prob_11_plus_min = None, prob_portafolio_11_plus = None, costo_total = None,
        eficiencia = None\<rparr>\<rparr>"

definition validatePortfolio :: "'a quiniela_scheme list \<Rightarrow> validacion" where
  "validatePortfolio quinielas =
     (if length quinielas = 0
      then validacion_inicial\<lparr>es_valido := False,
             errores := errores validacion_inicial @ [NoHayQuinielas]\<rparr>
      else
        (let validacion =
               calcularMetricas quinielas
                 (validarConcentracion quinielas
                    (validarEmpatesIndividuales quinielas
                       (validarDistribucionGlobal quinielas validacion_inicial)))
         in if length (errores validacion) > 0 then validacion\<lparr>es_valido := False\<rparr>
            else if length (warnings validacion) > 3
            then validacion\<lparr>es_valido := False,
                   errores := errores validacion @ [DemasiadasAdvertencias]\<rparr>
            else validacion))"

section \<open>Derived notions and concrete inputs\<close>

text \<open>
  The slots that the two collecting loops of \<^verbatim>\<open>ajustarEmpates\<close> look for, each
  with its position: the non-Draw slots whose match has a draw probability above 0.20,
  and the Draw slots.
\<close>

definition faltantes ::
  "resultado list \<Rightarrow> 'a partidoClasificado_scheme list \<Rightarrow> (nat \<times> resultado) list" where
  "faltantes q ps =
     filter (\<lambda>(j, r). r \<noteq> E \<and> prob_empate (ps ! j) > 0.20) (enumerate 0 q)"

definition sobrantes :: "resultado list \<Rightarrow> (nat \<times> resultado) list" where
  "sobrantes q = filter (\<lambda>(j, r). r = E) (enumerate 0 q)"

text \<open>
  The base ticket in the words of the specification: a draw-leaning match is forced to
  Draw exactly when the draw count of the slots filled so far, the first argument, is
  below \<open>EMPATES_MAX\<close>; every other match takes its suggested outcome.
\<close>

fun baseLoop_spec :: "nat \<Rightarrow> 'a partidoClasificado_scheme list \<Rightarrow> resultado list" where
  "baseLoop_spec n [] = []"
| "baseLoop_spec n (partido # resto) =
     (let resultado =
            (if clasificacion partido = Ancla then resultadoSugerido partido
             else if clasificacion partido = TendenciaEmpate \<and> n < EMPATES_MAX then E
             else resultadoSugerido partido)
      in resultado # baseLoop_spec (if resultado = E then n + 1 else n) resto)"

definition crearQuinielaBase_spec :: "'a partidoClasificado_scheme list \<Rightarrow> resultado list" where
  "crearQuinielaBase_spec partidosClasificados = baseLoop_spec 0 partidosClasificados"

text \<open>
  The entry that \<^verbatim>\<open>classifyMatches\<close> builds from the calibrated probabilities
  \<open>l\<close>, \<open>e\<close>, \<open>v\<close>, with the classifier as constructed.
\<close>

definition clasificado :: "real \<Rightarrow> real \<Rightarrow> real \<Rightarrow> partidoClasificado" where
  "clasificado l e v =
     \<lparr>prob_local = l, prob_empate = e, prob_visitante = v,
      clasificacion =
        clasificarPartido constructor \<lparr>prob_local = l, prob_empate = e, prob_visitante = v\<rparr>,
      resultadoSugerido =
        getResultadoSugerido \<lparr>prob_local = l, prob_empate = e, prob_visitante = v\<rparr>\<rparr>"

text \<open>
  The body of the \<open>map\<close> of \<^verbatim>\<open>classifyMatches\<close> for one raw match, where the
  calibrated values are finite; \<open>None\<close> where one of them is not, since the
  classifier and the generator are modelled on finite numbers.
\<close>

definition classifyMatch :: "partido \<Rightarrow> partidoClasificado option" where
  "classifyMatch partido =
     (let partidoCalibrado = aplicarCalibracionBayesiana partido
      in case (prob_local partidoCalibrado, prob_empate partidoCalibrado,
               prob_visitante partidoCalibrado) of
           (Num l, Num e, Num v) \<Rightarrow> Some (clasificado l e v)
         | _ \<Rightarrow> None)"

text \<open>A raw match with the given probabilities and no contextual signal.\<close>

definition crudo :: "real \<Rightarrow> real \<Rightarrow> real \<Rightarrow> partido" where
  "crudo l e v =
     \<lparr>prob_local = l, prob_empate = e, prob_visitante = v, es_final = False,
      forma_diferencia = None, lesiones_impact = None\<rparr>"

text \<open>A deciding match, a match with a negative entry, and the all-zero match.\<close>

definition partido_final :: partido where
  "partido_final = (crudo 0.5 0.3 0.2)\<lparr>es_final := True\<rparr>"

definition partido_negativo :: partido where
  "partido_negativo = crudo (- 1) 0.5 0.25"

definition partido_cero :: partido where
  "partido_cero = crudo 0 0 0"

text \<open>Fourteen matches: four draw-leaning ones whose suggested outcome is \<open>V\<close>, ten anchors.\<close>

definition partidos_tendencia :: "partidoClasificado list" where
  "partidos_tendencia =
     replicate 4 (clasificado 0.2 0.4 0.4) @ replicate 10 (clasificado 0.7 0.2 0.1)"

text \<open>Fourteen anchors: seven with the suggested outcome \<open>E\<close>, seven with \<open>L\<close>.\<close>

definition partidos_anclas :: "partidoClasificado list" where
  "partidos_anclas =
     replicate 7 (clasificado 0.2 0.7 0.1) @ replicate 7 (clasificado 0.7 0.2 0.1)"

text \<open>
  Fourteen matches with two \<open>Divisor\<close> matches, at the positions 0 and 4, and anchors
  elsewhere; the anchor at position 3 has a draw probability above 0.20.
\<close>

definition partidos_par :: "partidoClasificado list" where
  "partidos_par =
     [clasificado 0.45 0.35 0.20, clasificado 0.2 0.7 0.1, clasificado 0.2 0.7 0.1,
      clasificado 0.65 0.30 0.05, clasificado 0.55 0.25 0.20]
     @ replicate 9 (clasificado 0.8 0.1 0.1)"

text \<open>A run of the random source: below 0.3 at slot 4, above it elsewhere.\<close>

definition random_par :: "nat \<Rightarrow> real" where
  "random_par i = (if i = 4 then 0.1 else 0.5)"

text \<open>
  Fourteen matches: a draw-leaning match whose suggested outcome is \<open>E\<close>, a
  \<open>Divisor\<close> match whose suggested outcome is \<open>L\<close> and whose alternative is
  \<open>E\<close>, five anchors on \<open>E\<close> and seven on \<open>L\<close>.
\<close>

definition partidos_mixtos :: "partidoClasificado list" where
  "partidos_mixtos =
     [clasificado 0.3 0.4 0.3, clasificado 0.5 0.45 0.05]
     @ replicate 5 (clasificado 0.2 0.7 0.1) @ replicate 7 (clasificado 0.8 0.1 0.1)"

text \<open>
  Twenty tickets of fourteen slots that all pick \<open>L\<close> on the first slot and rotate
  through the three outcomes on the other slots.
\<close>

definition boleto :: "resultado list \<Rightarrow> quiniela" where
  "boleto rs = \<lparr>resultados = L # rs, prob_11_plus = None\<rparr>"

definition cartera_L :: "quiniela list" where
  "cartera_L =
     concat (replicate 6
       [boleto [L, E, V, L, E, V, L, E, V, L, E, V, L],
        boleto [E, V, L, E, V, L, E, V, L, E, V, L, E],
        boleto [V, L, E, V, L, E, V, L, E, V, L, E, V]])
     @ [boleto [L, E, V, L, E, V, L, E, V, L, E, V, L],
        boleto [E, V, L, E, V, L, E, V, L, E, V, L, E]]"

text \<open>Three tickets with the estimate 0.1 each.\<close>

definition cartera_estimada :: "quiniela list" where
  "cartera_estimada =
     replicate 3 \<lparr>resultados = [L, E, V, L, E, V, L, E, V, L, E, V, L, E],
                   prob_11_plus = Some 0.1\<rparr>"

section \<open>Evaluation lemmas\<close>

lemma getResultadoSugerido_cases:
  "getResultadoSugerido p =
     (if prob_local p > prob_empate p
      then (if prob_local p > prob_visitante p then L else V)
      else (if prob_empate p > prob_visitante p then E else V))"
  by (simp add: getResultadoSugerido_def reduce_keys_def probs_de_def)

lemma getResultadoAlternativo_cases:
  "getResultadoAlternativo p =
     (let l = prob_local p; e = prob_empate p; v = prob_visitante p
      in if l \<ge> e then (if e \<ge> v then E else if l \<ge> v then V else L)
         else (if l \<ge> v then L else if e \<ge> v then V else E))"
  by (simp add: getResultadoAlternativo_def sort_desc_def Let_def)

lemmas clasificado_eval =
  clasificado_def clasificarPartido_def constructor_def getResultadoSugerido_cases

lemma Math_max3: "Math_max [a, b, c] = max (max a b) c"
  by simp

lemma Max3: "Max {a, b, c::real} = max (max a b) c"
  by (simp add: max.assoc)

text \<open>
  A raw match without contextual signals whose probabilities sum to 1 and which the
  draw-propensity rule leaves alone is classified on its raw probabilities.
\<close>

lemma classifyMatch_crudo:
  assumes "l + e + v = 1" and "\<not> (\<bar>l - v\<bar> < 0.08 \<and> e > max l v)"
  shows "classifyMatch (crudo l e v) = Some (clasificado l e v)"
proof -
  have f: "factorAjuste (crudo l e v) = 1"
    by (simp add: factorAjuste_def crudo_def)
  have pa: "probsAjustadas (crudo l e v) = (l, e, v)"
  proof -
    have sel: "prob_local (crudo l e v) = l" "prob_empate (crudo l e v) = e"
      "prob_visitante (crudo l e v) = v"
      by (simp_all add: crudo_def)
    show ?thesis
      using assms(2) by (auto simp: probsAjustadas_def f sel Let_def umbral_diferencia_def)
  qed
  have t: "total_ajustado (crudo l e v) = 1"
    using assms(1) by (simp add: total_ajustado_def pa)
  show ?thesis
    by (simp add: classifyMatch_def aplicarCalibracionBayesiana_def pa t js_div_def)
qed

text \<open>
  The lists of classified matches used below are what \<open>classifyMatch\<close> makes of raw
  matches with the same probabilities.
\<close>

lemma partidos_tendencia_de_crudos:
  "map classifyMatch (replicate 4 (crudo 0.2 0.4 0.4) @ replicate 10 (crudo 0.7 0.2 0.1))
     = map Some partidos_tendencia"
  by (simp add: partidos_tendencia_def classifyMatch_crudo)

lemma partidos_anclas_de_crudos:
  "map classifyMatch (replicate 7 (crudo 0.2 0.7 0.1) @ replicate 7 (crudo 0.7 0.2 0.1))
     = map Some partidos_anclas"
  by (simp add: partidos_anclas_def classifyMatch_crudo)

lemma partidos_par_de_crudos:
  "map classifyMatch
     ([crudo 0.45 0.35 0.20, crudo 0.2 0.7 0.1, crudo 0.2 0.7 0.1, crudo 0.65 0.30 0.05,
       crudo 0.55 0.25 0.20] @ replicate 9 (crudo 0.8 0.1 0.1))
     = map Some partidos_par"
  by (simp add: partidos_par_def classifyMatch_crudo)

section \<open>Suggested outcome\<close>

text \<open>
  C1 (corrected). The suggested outcome is an arg-max of the three probabilities, and
  the tie-break is last-wins on the order Home, Draw, Away: every outcome whose
  probability equals the maximum comes no later in the order than the one returned.
\<close>

theorem getResultadoSugerido_argmax_ultimo:
  "(\<forall>k. probs_de p k \<le> probs_de p (getResultadoSugerido p))
   \<and> (\<forall>k. probs_de p k = probs_de p (getResultadoSugerido p)
          \<longrightarrow> orden k \<le> orden (getResultadoSugerido p))"
proof -
  have "probs_de p k \<le> probs_de p (getResultadoSugerido p)" for k
    by (cases k) (auto simp: getResultadoSugerido_cases probs_de_def)
  moreover have "orden k \<le> orden (getResultadoSugerido p)"
    if "probs_de p k = probs_de p (getResultadoSugerido p)" for k
    using that
    by (cases k) (auto simp: getResultadoSugerido_cases probs_de_def split: if_splits)
  ultimately show ?thesis by blast
qed

theorem getResultadoSugerido_argmax_ultimo_witness:
  "probs_de (clasificado 0.4 0.4 0.2) L
     = probs_de (clasificado 0.4 0.4 0.2) (getResultadoSugerido (clasificado 0.4 0.4 0.2))
   \<and> orden L \<le> orden (getResultadoSugerido (clasificado 0.4 0.4 0.2))"
  using getResultadoSugerido_argmax_ultimo [of "clasificado 0.4 0.4 0.2"]
  by (simp add: clasificado_def getResultadoSugerido_cases probs_de_def)

text \<open>
  Home and Draw share the maximum 0.4; the first-wins rule of the claim gives Home,
  the source gives Draw.
\<close>

theorem getResultadoSugerido_empate_counterexample:
  "probs_de \<lparr>prob_local = 0.4, prob_empate = 0.4, prob_visitante = 0.2\<rparr> L
     = Max {0.4, 0.4, 0.2}
   \<and> probs_de \<lparr>prob_local = 0.4, prob_empate = 0.4, prob_visitante = 0.2\<rparr> E
     = Max {0.4, 0.4, 0.2}
   \<and> getResultadoSugerido \<lparr>prob_local = 0.4, prob_empate = 0.4, prob_visitante = 0.2\<rparr> \<noteq> L
   \<and> getResultadoSugerido \<lparr>prob_local = 0.4, prob_empate = 0.4, prob_visitante = 0.2\<rparr> = E"
  by (simp add: getResultadoSugerido_cases probs_de_def)

section \<open>Classification\<close>

text \<open>
  C8 (confirmed). With the thresholds of the constructor, \<open>clasificarPartido\<close> is the
  first-match-wins rule of the specification: Anchor if the maximum exceeds 0.60, else
  DrawLeaning if the draw probability exceeds 0.30 and is at least both others, else
  Divisor if the maximum lies in [0.40, 0.60), else Neutral.
\<close>

theorem clasificarPartido_spec:
  "clasificarPartido constructor p = clasificacion_spec p"
  unfolding clasificarPartido_def clasificacion_spec_def Max3 Math_max3 constructor_def
  by (simp add: Let_def)

theorem clasificarPartido_spec_witness:
  "clasificarPartido constructor (clasificado 0.45 0.35 0.20) = Divisor
   \<and> clasificacion_spec (clasificado 0.45 0.35 0.20) = Divisor"
  using clasificarPartido_spec [of "clasificado 0.45 0.35 0.20"]
  by (simp add: clasificado_def clasificarPartido_def constructor_def)

section \<open>Calibration\<close>

text \<open>
  C7 (confirmed). When the adjusted total is positive, the three values returned by
  \<open>aplicarCalibracionBayesiana\<close> are finite and sum to 1 in exact arithmetic.
\<close>

theorem aplicarCalibracionBayesiana_suma_1:
  assumes "0 < total_ajustado p"
  shows "\<exists>a b c. aplicarCalibracionBayesiana p
            = \<lparr>prob_local = Num a, prob_empate = Num b, prob_visitante = Num c\<rparr>
          \<and> a + b + c = 1"
proof -
  obtain l e v where pa: "probsAjustadas p = (l, e, v)"
    by (cases "probsAjustadas p") auto
  from assms have t: "total_ajustado p \<noteq> 0" by simp
  have tot: "total_ajustado p = l + e + v" by (simp add: total_ajustado_def pa)
  have "aplicarCalibracionBayesiana p
      = \<lparr>prob_local = Num (l / total_ajustado p), prob_empate = Num (e / total_ajustado p),
         prob_visitante = Num (v / total_ajustado p)\<rparr>"
    using t by (simp add: aplicarCalibracionBayesiana_def pa js_div_def)
  moreover have "l / total_ajustado p + e / total_ajustado p + v / total_ajustado p = 1"
    using t tot by (simp add: add_divide_distrib [symmetric])
  ultimately show ?thesis by blast
qed

lemma total_ajustado_final: "total_ajustado partido_final = 16 / 15"
  by (simp add: total_ajustado_def probsAjustadas_def factorAjuste_def partido_final_def
      crudo_def Let_def k1_forma_def k2_lesiones_def k3_contexto_def umbral_diferencia_def)

theorem aplicarCalibracionBayesiana_suma_1_witness:
  "0 < total_ajustado partido_final
   \<and> (\<exists>a b c. aplicarCalibracionBayesiana partido_final
            = \<lparr>prob_local = Num a, prob_empate = Num b, prob_visitante = Num c\<rparr>
          \<and> a + b + c = 1)"
proof -
  have h: "0 < total_ajustado partido_final"
    by (simp add: total_ajustado_final)
  from aplicarCalibracionBayesiana_suma_1 [OF h] h show ?thesis by blast
qed

text \<open>
  C6 (corrected). The source has no check of the probability sum and no error: for a
  match whose raw probability sum is non-positive, \<open>aplicarCalibracionBayesiana\<close>
  returns its three quotients like for any other match. They are finite and sum to 1
  when the adjusted total is not zero, and each is \<open>NaN\<close> or an infinity when it is
  zero.
\<close>

theorem aplicarCalibracionBayesiana_no_rechaza:
  assumes "prob_local p + prob_empate p + prob_visitante p \<le> 0"
  shows "(total_ajustado p \<noteq> 0 \<longrightarrow>
            (\<exists>a b c. aplicarCalibracionBayesiana p
               = \<lparr>prob_local = Num a, prob_empate = Num b, prob_visitante = Num c\<rparr>
             \<and> a + b + c = 1))
       \<and> (total_ajustado p = 0 \<longrightarrow>
            prob_local (aplicarCalibracionBayesiana p) \<in> {NaN, Infinity, NegInfinity}
          \<and> prob_empate (aplicarCalibracionBayesiana p) \<in> {NaN, Infinity, NegInfinity}
          \<and> prob_visitante (aplicarCalibracionBayesiana p) \<in> {NaN, Infinity, NegInfinity})"
proof -
  obtain l e v where pa: "probsAjustadas p = (l, e, v)"
    by (cases "probsAjustadas p") auto
  have tot: "total_ajustado p = l + e + v" by (simp add: total_ajustado_def pa)
  have "\<exists>a b c. aplicarCalibracionBayesiana p
               = \<lparr>prob_local = Num a, prob_empate = Num b, prob_visitante = Num c\<rparr>
             \<and> a + b + c = 1" if t: "total_ajustado p \<noteq> 0"
  proof -
    have "aplicarCalibracionBayesiana p
      = \<lparr>prob_local = Num (l / total_ajustado p), prob_empate = Num (e / total_ajustado p),
         prob_visitante = Num (v / total_ajustado p)\<rparr>"
      using t by (simp add: aplicarCalibracionBayesiana_def pa js_div_def)
    moreover have "l / total_ajustado p + e / total_ajustado p + v / total_ajustado p = 1"
      using t tot by (simp add: add_divide_distrib [symmetric])
    ultimately show ?thesis by blast
  qed
  moreover have "prob_local (aplicarCalibracionBayesiana p) \<in> {NaN, Infinity, NegInfinity}
          \<and> prob_empate (aplicarCalibracionBayesiana p) \<in> {NaN, Infinity, NegInfinity}
          \<and> prob_visitante (aplicarCalibracionBayesiana p) \<in> {NaN, Infinity, NegInfinity}"
    if "total_ajustado p = 0"
    using that by (simp add: aplicarCalibracionBayesiana_def pa js_div_def)
  ultimately show ?thesis by blast
qed

lemma total_ajustado_negativo: "total_ajustado partido_negativo = - 1 / 4"
  by (simp add: total_ajustado_def probsAjustadas_def factorAjuste_def partido_negativo_def
      crudo_def Let_def umbral_diferencia_def)

theorem aplicarCalibracionBayesiana_no_rechaza_witness:
  "prob_local partido_negativo + prob_empate partido_negativo
     + prob_visitante partido_negativo \<le> 0
   \<and> total_ajustado partido_negativo \<noteq> 0
   \<and> (\<exists>a b c. aplicarCalibracionBayesiana partido_negativo
               = \<lparr>prob_local = Num a, prob_empate = Num b, prob_visitante = Num c\<rparr>
             \<and> a + b + c = 1)"
proof -
  have h: "prob_local partido_negativo + prob_empate partido_negativo
     + prob_visitante partido_negativo \<le> 0"
    by (simp add: partido_negativo_def crudo_def)
  have t: "total_ajustado partido_negativo \<noteq> 0"
    by (simp add: total_ajustado_negativo)
  from aplicarCalibracionBayesiana_no_rechaza [OF h] h t show ?thesis by blast
qed

text \<open>
  The match with three zero probabilities has the sum 0; the source returns a record of
  three \<open>NaN\<close> for it, where the claim has an error.
\<close>

theorem aplicarCalibracionBayesiana_cero_counterexample:
  "prob_local partido_cero + prob_empate partido_cero + prob_visitante partido_cero \<le> 0
   \<and> aplicarCalibracionBayesiana partido_cero
       = \<lparr>prob_local = NaN, prob_empate = NaN, prob_visitante = NaN\<rparr>"
  by (simp add: aplicarCalibracionBayesiana_def total_ajustado_def probsAjustadas_def
      factorAjuste_def partido_cero_def crudo_def js_div_def umbral_diferencia_def Let_def)

section \<open>Base ticket\<close>

lemma partidos_tendencia_eval:
  "partidos_tendencia =
     replicate 4 \<lparr>prob_local = 0.2, prob_empate = 0.4, prob_visitante = 0.4,
                   clasificacion = TendenciaEmpate, resultadoSugerido = V\<rparr>
     @ replicate 10 \<lparr>prob_local = 0.7, prob_empate = 0.2, prob_visitante = 0.1,
                      clasificacion = Ancla, resultadoSugerido = L\<rparr>"
  by (simp add: partidos_tendencia_def clasificado_eval)

text \<open>
  C3 (code defect). On four draw-leaning matches whose suggested outcome is \<open>V\<close>,
  followed by ten anchors, the fourth slot is filled when the three slots before it
  hold three draws, fewer than \<open>EMPATES_MAX\<close>, and still it is not forced to
  \<open>E\<close>: the counter of the loop has counted each forced draw twice and stands at 6.
  The rule of the specification forces the fourth slot.
\<close>

theorem crearQuinielaBase_contador_doble:
  "crearQuinielaBase partidos_tendencia = [E, E, E, V, L, L, L, L, L, L, L, L, L, L]
   \<and> clasificacion (partidos_tendencia ! 3) = TendenciaEmpate
   \<and> empates (take 3 (crearQuinielaBase partidos_tendencia)) = 3
   \<and> 3 < EMPATES_MAX
   \<and> crearQuinielaBase partidos_tendencia ! 3 \<noteq> E
   \<and> crearQuinielaBase_spec partidos_tendencia = [E, E, E, E, L, L, L, L, L, L, L, L, L, L]"
  unfolding partidos_tendencia_eval
  by (simp add: crearQuinielaBase_def crearQuinielaBase_spec_def EMPATES_MAX_def empates_def
      numeral_eq_Suc)

section \<open>Draw adjustment\<close>

lemma ajustarEmpates_en_rango:
  assumes "EMPATES_MIN \<le> empates q" and "empates q \<le> EMPATES_MAX"
  shows "ajustarEmpates q ps = Inr q"
  using assms by (simp add: ajustarEmpates_def empates_def Let_def)

text \<open>
  C10 (confirmed). A ticket whose draw count lies between \<open>EMPATES_MIN\<close> and
  \<open>EMPATES_MAX\<close> is returned by \<open>ajustarEmpates\<close> as it is, slot for slot, and
  without an error whatever the list of matches is.
\<close>

theorem ajustarEmpates_identidad:
  "EMPATES_MIN \<le> empates q \<and> empates q \<le> EMPATES_MAX \<longrightarrow> ajustarEmpates q ps = Inr q"
  by (simp add: ajustarEmpates_def empates_def Let_def)

theorem ajustarEmpates_identidad_witness:
  "EMPATES_MIN \<le> empates [E, E, E, E, E, L, L, V, V, L, L, V, V, L]
   \<and> empates [E, E, E, E, E, L, L, V, V, L, L, V, V, L] \<le> EMPATES_MAX
   \<and> ajustarEmpates [E, E, E, E, E, L, L, V, V, L, L, V, V, L] partidos_anclas
       = Inr [E, E, E, E, E, L, L, V, V, L, L, V, V, L]"
  using ajustarEmpates_identidad [of "[E, E, E, E, E, L, L, V, V, L, L, V, V, L]" partidos_anclas]
  by (simp add: empates_def EMPATES_MIN_def EMPATES_MAX_def)

lemma empates_update_E:
  "i < length q \<Longrightarrow> q ! i \<noteq> E \<Longrightarrow> empates (q[i := E]) = Suc (empates q)"
proof (induction q arbitrary: i)
  case Nil
  then show ?case by simp
next
  case (Cons r q)
  then show ?case by (cases i) (auto simp: empates_def)
qed

lemma foldl_marcar_empates:
  assumes "distinct (map c_index cs)"
      and "\<forall>c\<in>set cs. c_index c < length q \<and> q ! c_index c \<noteq> E"
  shows "empates (foldl (\<lambda>q c. q[c_index c := E]) q cs) = empates q + length cs
       \<and> length (foldl (\<lambda>q c. q[c_index c := E]) q cs) = length q"
  using assms
proof (induction cs arbitrary: q)
  case Nil
  then show ?case by simp
next
  case (Cons c cs)
  let ?q = "q[c_index c := E]"
  from Cons.prems have c: "c_index c < length q" "q ! c_index c \<noteq> E" by auto
  have d: "distinct (map c_index cs)" using Cons.prems(1) by simp
  have r: "\<forall>c'\<in>set cs. c_index c' < length ?q \<and> ?q ! c_index c' \<noteq> E"
  proof
    fix c' assume m: "c' \<in> set cs"
    from Cons.prems(1) have "c_index c \<notin> set (map c_index cs)" by simp
    with m have "c_index c' \<noteq> c_index c" by (metis image_eqI list.set_map)
    with Cons.prems(2) m show "c_index c' < length ?q \<and> ?q ! c_index c' \<noteq> E"
      by simp
  qed
  from Cons.IH [OF d r] empates_update_E [OF c] show ?case by simp
qed

lemma candidatosFaltantes_desde:
  assumes "i + length rs \<le> length ps"
  shows "\<exists>cs. candidatosFaltantes i rs ps = Inr cs
           \<and> map c_index cs
               = map fst (filter (\<lambda>(j, r). r \<noteq> E \<and> prob_empate (ps ! j) > 0.20)
                            (enumerate i rs))"
  using assms
proof (induction rs arbitrary: i)
  case Nil
  then show ?case by simp
next
  case (Cons r rs)
  from Cons.prems have le: "Suc i + length rs \<le> length ps" and i: "i < length ps" by auto
  from Cons.IH [OF le] obtain cs where
    "candidatosFaltantes (Suc i) rs ps = Inr cs"
    "map c_index cs
       = map fst (filter (\<lambda>(j, r). r \<noteq> E \<and> prob_empate (ps ! j) > 0.20)
                    (enumerate (Suc i) rs))"
    by blast
  with i show ?case by (simp add: leer_def)
qed

lemma distinct_take_map: "distinct (map f xs) \<Longrightarrow> distinct (map f (take n xs))"
  by (metis distinct_take take_map)

text \<open>
  The add path of \<open>ajustarEmpates\<close>: a ticket with fewer than \<open>EMPATES_MIN\<close>
  draws, with a match for each slot and at least as many candidate slots as draws are
  missing, is returned with exactly \<open>EMPATES_MIN\<close> draws.
\<close>

lemma ajustarEmpates_faltantes:
  assumes few: "empates q < EMPATES_MIN"
      and len: "length q \<le> length ps"
      and cand: "EMPATES_MIN - empates q \<le> length (faltantes q ps)"
  shows "\<exists>q'. ajustarEmpates q ps = Inr q' \<and> length q' = length q \<and> empates q' = EMPATES_MIN"
proof -
  from candidatosFaltantes_desde [of 0 q ps] len obtain cs where
    cs: "candidatosFaltantes 0 q ps = Inr cs"
    and ix: "map c_index cs = map fst (faltantes q ps)"
    by (auto simp: faltantes_def)
  let ?n = "EMPATES_MIN - empates q"
  let ?ts = "take (min ?n (length cs)) (sort_desc prob cs)"
  have lcs: "length cs = length (faltantes q ps)"
    using ix by (metis length_map)
  have dcs: "distinct (map c_index cs)"
    unfolding ix faltantes_def by (simp add: distinct_map_filter)
  have ds: "distinct (map c_index (sort_desc prob cs))"
    using dcs by (simp add: sort_desc_def distinct_map)
  have dts: "distinct (map c_index ?ts)"
    using ds by (rule distinct_take_map)
  have mem: "\<forall>c\<in>set cs. c_index c < length q \<and> q ! c_index c \<noteq> E"
  proof
    fix c assume "c \<in> set cs"
    then have "c_index c \<in> set (map c_index cs)" by simp
    then show "c_index c < length q \<and> q ! c_index c \<noteq> E"
      unfolding ix by (auto simp: faltantes_def in_set_enumerate_eq)
  qed
  have "set ?ts \<subseteq> set cs"
    using set_take_subset [of "min ?n (length cs)" "sort_desc prob cs"]
    by (simp add: sort_desc_def)
  with mem have mts: "\<forall>c\<in>set ?ts. c_index c < length q \<and> q ! c_index c \<noteq> E" by blast
  have lts: "length ?ts = ?n"
    using cand lcs by (simp add: sort_desc_def)
  from foldl_marcar_empates [OF dts mts] lts few
  have "empates (foldl (\<lambda>q c. q[c_index c := E]) q ?ts) = EMPATES_MIN"
    and "length (foldl (\<lambda>q c. q[c_index c := E]) q ?ts) = length q"
    by auto
  moreover have "ajustarEmpates q ps = Inr (foldl (\<lambda>q c. q[c_index c := E]) q ?ts)"
    using few cs by (simp add: ajustarEmpates_def empates_def Let_def)
  ultimately show ?thesis by blast
qed

lemma empates_update_no_E:
  "i < length q \<Longrightarrow> q ! i = E \<Longrightarrow> r \<noteq> E \<Longrightarrow> Suc (empates (q[i := r])) = empates q"
proof (induction q arbitrary: i)
  case Nil
  then show ?case by simp
next
  case (Cons r' q)
  then show ?case by (cases i) (auto simp: empates_def)
qed

lemma foldl_revertir_empates:
  assumes "distinct (map c_index cs)"
      and "\<forall>c\<in>set cs. c_index c < length q \<and> q ! c_index c = E
             \<and> resultadoSugerido (ps ! c_index c) \<noteq> E"
  shows "empates (foldl (\<lambda>q c. q[c_index c := resultadoSugerido (ps ! c_index c)]) q cs)
           + length cs = empates q
       \<and> length (foldl (\<lambda>q c. q[c_index c := resultadoSugerido (ps ! c_index c)]) q cs)
           = length q"
  using assms
proof (induction cs arbitrary: q)
  case Nil
  then show ?case by simp
next
  case (Cons c cs)
  let ?q = "q[c_index c := resultadoSugerido (ps ! c_index c)]"
  from Cons.prems have c: "c_index c < length q" "q ! c_index c = E"
    "resultadoSugerido (ps ! c_index c) \<noteq> E" by auto
  have d: "distinct (map c_index cs)" using Cons.prems(1) by simp
  have r: "\<forall>c'\<in>set cs. c_index c' < length ?q \<and> ?q ! c_index c' = E
             \<and> resultadoSugerido (ps ! c_index c') \<noteq> E"
  proof
    fix c' assume m: "c' \<in> set cs"
    from Cons.prems(1) have "c_index c \<notin> set (map c_index cs)" by simp
    with m have "c_index c' \<noteq> c_index c" by (metis image_eqI list.set_map)
    with Cons.prems(2) m show "c_index c' < length ?q \<and> ?q ! c_index c' = E
             \<and> resultadoSugerido (ps ! c_index c') \<noteq> E"
      by simp
  qed
  from Cons.IH [OF d r] empates_update_no_E [OF c] show ?case by simp
qed

lemma foldl_revertir_sin_efecto:
  assumes "\<forall>c\<in>set cs. c_index c < length q
             \<and> resultadoSugerido (ps ! c_index c) = q ! c_index c"
  shows "foldl (\<lambda>q c. q[c_index c := resultadoSugerido (ps ! c_index c)]) q cs = q"
  using assms by (induction cs) simp_all

lemma candidatosSobrantes_desde:
  assumes "i + length rs \<le> length ps"
  shows "\<exists>cs. candidatosSobrantes i rs ps = Inr cs
           \<and> map c_index cs = map fst (filter (\<lambda>(j, r). r = E) (enumerate i rs))"
  using assms
proof (induction rs arbitrary: i)
  case Nil
  then show ?case by simp
next
  case (Cons r rs)
  from Cons.prems have le: "Suc i + length rs \<le> length ps" and i: "i < length ps" by auto
  from Cons.IH [OF le] obtain cs where
    "candidatosSobrantes (Suc i) rs ps = Inr cs"
    "map c_index cs = map fst (filter (\<lambda>(j, r). r = E) (enumerate (Suc i) rs))"
    by blast
  with i show ?case by (simp add: leer_def)
qed

lemma length_sobrantes: "length (sobrantes q) = empates q"
proof -
  have "length (filter (\<lambda>(j, r). r = E) (enumerate i q)) = length (filter (\<lambda>r. r = E) q)" for i
    by (induction q arbitrary: i) simp_all
  then show ?thesis by (simp add: sobrantes_def empates_def)
qed

text \<open>
  The remove path of \<open>ajustarEmpates\<close> on a ticket with more than
  \<open>EMPATES_MAX\<close> draws and a match for each slot: where no Draw slot has a match
  whose suggested outcome is \<open>E\<close>, the ticket is returned with exactly
  \<open>EMPATES_MAX\<close> draws; where every Draw slot has such a match, it is returned
  unchanged.
\<close>

lemma ajustarEmpates_sobrantes:
  assumes many: "EMPATES_MAX < empates q"
      and len: "length q \<le> length ps"
      and sug: "\<forall>j<length q. q ! j = E \<longrightarrow> resultadoSugerido (ps ! j) \<noteq> E"
  shows "\<exists>q'. ajustarEmpates q ps = Inr q' \<and> length q' = length q \<and> empates q' = EMPATES_MAX"
proof -
  from candidatosSobrantes_desde [of 0 q ps] len obtain cs where
    cs: "candidatosSobrantes 0 q ps = Inr cs"
    and ix: "map c_index cs = map fst (sobrantes q)"
    by (auto simp: sobrantes_def)
  let ?n = "empates q - EMPATES_MAX"
  let ?ts = "take (min ?n (length cs)) (sort_asc prob cs)"
  let ?f = "\<lambda>q c. q[c_index c := resultadoSugerido (ps ! c_index c)]"
  have lcs: "length cs = empates q"
    using ix length_sobrantes [of q] by (metis length_map)
  have dcs: "distinct (map c_index cs)"
    unfolding ix sobrantes_def by (simp add: distinct_map_filter)
  have ds: "distinct (map c_index (sort_asc prob cs))"
    using dcs by (simp add: sort_asc_def distinct_map)
  have dts: "distinct (map c_index ?ts)"
    using ds by (rule distinct_take_map)
  have mem: "\<forall>c\<in>set cs. c_index c < length q \<and> q ! c_index c = E
      \<and> resultadoSugerido (ps ! c_index c) \<noteq> E"
  proof
    fix c assume "c \<in> set cs"
    then have "c_index c \<in> set (map c_index cs)" by simp
    then have "c_index c < length q \<and> q ! c_index c = E"
      unfolding ix by (auto simp: sobrantes_def in_set_enumerate_eq)
    with sug show "c_index c < length q \<and> q ! c_index c = E
      \<and> resultadoSugerido (ps ! c_index c) \<noteq> E" by blast
  qed
  have "set ?ts \<subseteq> set cs"
    using set_take_subset [of "min ?n (length cs)" "sort_asc prob cs"]
    by (simp add: sort_asc_def)
  with mem have mts: "\<forall>c\<in>set ?ts. c_index c < length q \<and> q ! c_index c = E
      \<and> resultadoSugerido (ps ! c_index c) \<noteq> E" by blast
  have lts: "length ?ts = ?n"
    using lcs by (simp add: sort_asc_def)
  from foldl_revertir_empates [OF dts mts] lts many
  have "empates (foldl ?f q ?ts) = EMPATES_MAX" and "length (foldl ?f q ?ts) = length q"
    by auto
  moreover have "ajustarEmpates q ps = Inr (foldl ?f q ?ts)"
    using many cs by (simp add: ajustarEmpates_def empates_def Let_def EMPATES_MIN_def EMPATES_MAX_def)
  ultimately show ?thesis by blast
qed

lemma ajustarEmpates_sobrantes_sugeridos:
  assumes many: "EMPATES_MAX < empates q"
      and len: "length q \<le> length ps"
      and sug: "\<forall>j<length q. q ! j = E \<longrightarrow> resultadoSugerido (ps ! j) = E"
  shows "ajustarEmpates q ps = Inr q"
proof -
  from candidatosSobrantes_desde [of 0 q ps] len obtain cs where
    cs: "candidatosSobrantes 0 q ps = Inr cs"
    and ix: "map c_index cs = map fst (sobrantes q)"
    by (auto simp: sobrantes_def)
  let ?n = "empates q - EMPATES_MAX"
  let ?ts = "take (min ?n (length cs)) (sort_asc prob cs)"
  let ?f = "\<lambda>q c. q[c_index c := resultadoSugerido (ps ! c_index c)]"
  have mem: "\<forall>c\<in>set cs. c_index c < length q
      \<and> resultadoSugerido (ps ! c_index c) = q ! c_index c"
  proof
    fix c assume "c \<in> set cs"
    then have "c_index c \<in> set (map c_index cs)" by simp
    then have "c_index c < length q \<and> q ! c_index c = E"
      unfolding ix by (auto simp: sobrantes_def in_set_enumerate_eq)
    with sug show "c_index c < length q
      \<and> resultadoSugerido (ps ! c_index c) = q ! c_index c" by simp
  qed
  have "set ?ts \<subseteq> set cs"
    using set_take_subset [of "min ?n (length cs)" "sort_asc prob cs"]
    by (simp add: sort_asc_def)
  with mem have "\<forall>c\<in>set ?ts. c_index c < length q
      \<and> resultadoSugerido (ps ! c_index c) = q ! c_index c" by blast
  then have "foldl ?f q ?ts = q" by (rule foldl_revertir_sin_efecto)
  moreover have "ajustarEmpates q ps = Inr (foldl ?f q ?ts)"
    using many cs by (simp add: ajustarEmpates_def empates_def Let_def EMPATES_MIN_def EMPATES_MAX_def)
  ultimately show ?thesis by simp
qed

lemma foldl_update_length:
  "length (foldl (\<lambda>q c. q[f c := g c]) q cs) = length q"
  by (induction cs arbitrary: q) simp_all

lemma foldl_update_nth:
  "foldl (\<lambda>q c. q[f c := g c]) q cs ! i = q ! i
   \<or> (\<exists>c\<in>set cs. f c = i \<and> foldl (\<lambda>q c. q[f c := g c]) q cs ! i = g c)"
proof (induction cs rule: rev_induct)
  case Nil
  then show ?case by simp
next
  case (snoc c cs)
  let ?r = "foldl (\<lambda>q c. q[f c := g c]) q cs"
  show ?case
  proof (cases "f c = i \<and> i < length ?r")
    case True
    then show ?thesis by simp
  next
    case False
    then have "?r[f c := g c] ! i = ?r ! i"
      by (cases "f c = i") (simp_all add: list_update_beyond)
    with snoc.IH show ?thesis by auto
  qed
qed

lemma candidatosFaltantes_slots:
  assumes "length q \<le> length ps" and "candidatosFaltantes 0 q ps = Inr cs" and "c \<in> set cs"
  shows "c_index c < length q \<and> q ! c_index c \<noteq> E \<and> prob_empate (ps ! c_index c) > 0.20"
proof -
  from candidatosFaltantes_desde [of 0 q ps] assms(1,2)
  have ix: "map c_index cs = map fst (faltantes q ps)"
    by (auto simp: faltantes_def)
  from assms(3) have "c_index c \<in> set (map c_index cs)" by simp
  then show ?thesis
    unfolding ix by (auto simp: faltantes_def in_set_enumerate_eq)
qed

lemma candidatosSobrantes_slots:
  assumes "length q \<le> length ps" and "candidatosSobrantes 0 q ps = Inr cs" and "c \<in> set cs"
  shows "c_index c < length q \<and> q ! c_index c = E"
proof -
  from candidatosSobrantes_desde [of 0 q ps] assms(1,2)
  have ix: "map c_index cs = map fst (sobrantes q)"
    by (auto simp: sobrantes_def)
  from assms(3) have "c_index c \<in> set (map c_index cs)" by simp
  then show ?thesis
    unfolding ix by (auto simp: sobrantes_def in_set_enumerate_eq)
qed

text \<open>
  What \<open>ajustarEmpates\<close> does to one slot of a ticket that has a match for each
  slot: it keeps the slot, or the add path turns a non-Draw slot whose match has a draw
  probability above 0.20 into \<open>E\<close>, or the remove path sets a Draw slot to the
  suggested outcome of its match.
\<close>

lemma ajustarEmpates_por_slot:
  assumes len: "length q \<le> length ps"
  shows "\<exists>q'. ajustarEmpates q ps = Inr q' \<and> length q' = length q
           \<and> (\<forall>i<length q.
                 q' ! i = q ! i
                 \<or> (empates q < EMPATES_MIN \<and> q ! i \<noteq> E \<and> prob_empate (ps ! i) > 0.20
                    \<and> q' ! i = E)
                 \<or> (EMPATES_MAX < empates q \<and> q ! i = E
                    \<and> q' ! i = resultadoSugerido (ps ! i)))"
proof -
  consider (few) "empates q < EMPATES_MIN"
    | (many) "\<not> empates q < EMPATES_MIN" "EMPATES_MAX < empates q"
    | (ok) "\<not> empates q < EMPATES_MIN" "\<not> EMPATES_MAX < empates q"
    by blast
  then show ?thesis
  proof cases
    case few
    from candidatosFaltantes_desde [of 0 q ps] len obtain cs where
      cs: "candidatosFaltantes 0 q ps = Inr cs" by auto
    let ?ts = "take (min (EMPATES_MIN - empates q) (length cs)) (sort_desc prob cs)"
    let ?q' = "foldl (\<lambda>q c. q[c_index c := E]) q ?ts"
    have sub: "set ?ts \<subseteq> set cs"
      using set_take_subset [of "min (EMPATES_MIN - empates q) (length cs)" "sort_desc prob cs"]
      by (simp add: sort_desc_def)
    have res: "ajustarEmpates q ps = Inr ?q'"
      using few cs by (simp add: ajustarEmpates_def empates_def Let_def)
    have "?q' ! i = q ! i
        \<or> (empates q < EMPATES_MIN \<and> q ! i \<noteq> E \<and> prob_empate (ps ! i) > 0.20 \<and> ?q' ! i = E)"
      for i
    proof -
      from foldl_update_nth [of c_index "\<lambda>c. E" q ?ts i]
      consider "?q' ! i = q ! i" | c where "c \<in> set ?ts" "c_index c = i" "?q' ! i = E"
        by blast
      then show ?thesis
      proof cases
        case 1
        then show ?thesis by simp
      next
        case 2
        with sub have "c \<in> set cs" by blast
        from candidatosFaltantes_slots [OF len cs this] 2 few show ?thesis by simp
      qed
    qed
    with res show ?thesis by (auto simp: foldl_update_length)
  next
    case many
    from candidatosSobrantes_desde [of 0 q ps] len obtain cs where
      cs: "candidatosSobrantes 0 q ps = Inr cs" by auto
    let ?ts = "take (min (empates q - EMPATES_MAX) (length cs)) (sort_asc prob cs)"
    let ?q' = "foldl (\<lambda>q c. q[c_index c := resultadoSugerido (ps ! c_index c)]) q ?ts"
    have sub: "set ?ts \<subseteq> set cs"
      using set_take_subset [of "min (empates q - EMPATES_MAX) (length cs)" "sort_asc prob cs"]
      by (simp add: sort_asc_def)
    have res: "ajustarEmpates q ps = Inr ?q'"
      using many cs by (simp add: ajustarEmpates_def empates_def Let_def)
    have "?q' ! i = q ! i
        \<or> (EMPATES_MAX < empates q \<and> q ! i = E \<and> ?q' ! i = resultadoSugerido (ps ! i))"
      for i
    proof -
      from foldl_update_nth [of c_index "\<lambda>c. resultadoSugerido (ps ! c_index c)" q ?ts i]
      consider "?q' ! i = q ! i"
        | c where "c \<in> set ?ts" "c_index c = i" "?q' ! i = resultadoSugerido (ps ! c_index c)"
        by blast
      then show ?thesis
      proof cases
        case 1
        then show ?thesis by simp
      next
        case 2
        with sub have "c \<in> set cs" by blast
        from candidatosSobrantes_slots [OF len cs this] 2 many show ?thesis by auto
      qed
    qed
    with res show ?thesis by (auto simp: foldl_update_length)
  next
    case ok
    then have "ajustarEmpates q ps = Inr q"
      by (simp add: ajustarEmpates_def empates_def Let_def)
    then show ?thesis by simp
  qed
qed

lemma ajustarEmpates_conserva:
  assumes "length q \<le> length ps" and "ajustarEmpates q ps = Inr q'" and "i < length q"
      and "EMPATES_MIN \<le> empates q \<or> q ! i = E \<or> prob_empate (ps ! i) \<le> 0.20"
      and "empates q \<le> EMPATES_MAX \<or> q ! i \<noteq> E \<or> resultadoSugerido (ps ! i) = E"
  shows "q' ! i = q ! i"
proof -
  from ajustarEmpates_por_slot [OF assms(1)] assms(2,3)
  have "q' ! i = q ! i
      \<or> (empates q < EMPATES_MIN \<and> q ! i \<noteq> E \<and> prob_empate (ps ! i) > 0.20 \<and> q' ! i = E)
      \<or> (EMPATES_MAX < empates q \<and> q ! i = E \<and> q' ! i = resultadoSugerido (ps ! i))"
    by auto
  with assms(4,5) show ?thesis by auto
qed

lemma ajustarEmpates_sugerido:
  assumes "length q \<le> length ps" and "ajustarEmpates q ps = Inr q'" and "i < length q"
      and "q ! i = resultadoSugerido (ps ! i)"
  shows "(q' ! i = resultadoSugerido (ps ! i) \<or> q' ! i = E)
       \<and> (EMPATES_MIN \<le> empates q \<or> resultadoSugerido (ps ! i) = E
            \<or> prob_empate (ps ! i) \<le> 0.20 \<longrightarrow> q' ! i = resultadoSugerido (ps ! i))"
proof -
  from ajustarEmpates_por_slot [OF assms(1)] assms(2,3)
  have "q' ! i = q ! i
      \<or> (empates q < EMPATES_MIN \<and> q ! i \<noteq> E \<and> prob_empate (ps ! i) > 0.20 \<and> q' ! i = E)
      \<or> (EMPATES_MAX < empates q \<and> q ! i = E \<and> q' ! i = resultadoSugerido (ps ! i))"
    by auto
  with assms(4) show ?thesis by auto
qed

lemma partidos_anclas_eval:
  "partidos_anclas =
     replicate 7 \<lparr>prob_local = 0.2, prob_empate = 0.7, prob_visitante = 0.1,
                   clasificacion = Ancla, resultadoSugerido = E\<rparr>
     @ replicate 7 \<lparr>prob_local = 0.7, prob_empate = 0.2, prob_visitante = 0.1,
                     clasificacion = Ancla, resultadoSugerido = L\<rparr>"
  by (simp add: partidos_anclas_def clasificado_eval)

text \<open>
  The boundary case of the remove path: in the base ticket of seven anchors on \<open>E\<close>
  and seven on \<open>L\<close> every Draw slot has a match whose suggested outcome is \<open>E\<close>,
  so no revert can lower the draw count, and the ticket is returned with seven draws.
\<close>

lemma ajustarEmpates_sobrantes_sin_efecto:
  "crearQuinielaBase partidos_anclas = [E, E, E, E, E, E, E, L, L, L, L, L, L, L]
   \<and> ajustarEmpates (crearQuinielaBase partidos_anclas) partidos_anclas
       = Inr [E, E, E, E, E, E, E, L, L, L, L, L, L, L]
   \<and> empates [E, E, E, E, E, E, E, L, L, L, L, L, L, L] = 7
   \<and> \<not> 7 \<le> EMPATES_MAX"
  unfolding partidos_anclas_eval
  by (simp add: crearQuinielaBase_def ajustarEmpates_def EMPATES_MAX_def EMPATES_MIN_def
      empates_def leer_def sort_asc_def numeral_eq_Suc)

lemma partidos_mixtos_eval:
  "partidos_mixtos =
     [\<lparr>prob_local = 0.3, prob_empate = 0.4, prob_visitante = 0.3,
        clasificacion = TendenciaEmpate, resultadoSugerido = E\<rparr>,
      \<lparr>prob_local = 0.5, prob_empate = 0.45, prob_visitante = 0.05,
        clasificacion = Divisor, resultadoSugerido = L\<rparr>]
     @ replicate 5 \<lparr>prob_local = 0.2, prob_empate = 0.7, prob_visitante = 0.1,
                     clasificacion = Ancla, resultadoSugerido = E\<rparr>
     @ replicate 7 \<lparr>prob_local = 0.8, prob_empate = 0.1, prob_visitante = 0.1,
                     clasificacion = Ancla, resultadoSugerido = L\<rparr>"
  by (simp add: partidos_mixtos_def clasificado_eval)

lemma partidosDivisor_de_mixtos: "map index (partidosDivisor_de partidos_mixtos) = [1]"
  unfolding partidos_mixtos_eval
  by (simp add: partidosDivisor_de_def numeral_eq_Suc partidoClasificado.extend_def
      partidoDivisor.fields_def)

lemma partidoPrincipal_mixtos: "partidoPrincipal (partidosDivisor_de partidos_mixtos) 0 = 1"
proof -
  obtain d where "partidosDivisor_de partidos_mixtos = [d]" and "index d = 1"
    using partidosDivisor_de_mixtos by auto
  then show ?thesis by (simp add: partidoPrincipal_def)
qed

lemma parQuinielas_mixtos:
  "parQuinielas 1 random_par partidos_mixtos
     = ([E, L, E, E, E, E, E, L, L, L, L, L, L, L], [E, E, E, E, E, E, E, L, L, L, L, L, L, L])"
  unfolding partidos_mixtos_eval
  by (simp add: parQuinielas_def parSlot_def random_par_def numeral_eq_Suc
      getResultadoAlternativo_cases Let_def)

lemma ajustarEmpates_mixtos_A:
  "ajustarEmpates [E, L, E, E, E, E, E, L, L, L, L, L, L, L] partidos_mixtos
     = Inr [E, L, E, E, E, E, E, L, L, L, L, L, L, L]"
  by (simp add: ajustarEmpates_def EMPATES_MIN_def EMPATES_MAX_def)

lemma ajustarEmpates_mixtos_B:
  "ajustarEmpates [E, E, E, E, E, E, E, L, L, L, L, L, L, L] partidos_mixtos
     = Inr [E, E, E, E, E, E, E, L, L, L, L, L, L, L]"
  unfolding partidos_mixtos_eval
  by (simp add: ajustarEmpates_def EMPATES_MAX_def EMPATES_MIN_def leer_def sort_asc_def
      numeral_eq_Suc)

lemma crearParSatelites_mixtos:
  "crearParSatelites partidos_mixtos (partidosDivisor_de partidos_mixtos) 0 random_par
     = Inr ([E, L, E, E, E, E, E, L, L, L, L, L, L, L],
            [E, E, E, E, E, E, E, L, L, L, L, L, L, L])"
  by (simp only: crearParSatelites_def partidoPrincipal_mixtos parQuinielas_mixtos
      ajustarEmpates_mixtos_A ajustarEmpates_mixtos_B prod.case sum.case)

text \<open>
  C2 (code defect). With the pivot at position 1 and no other divergence, the second
  ticket of the satellite pair on \<open>partidos_mixtos\<close> has seven draws, one in excess. Of
  its seven Draw slots the one with the lowest draw probability is at position 0, and its
  match suggests \<open>E\<close>: \<open>ajustarEmpates\<close> spends its one revert there, changes
  nothing and returns seven draws, above \<open>EMPATES_MAX\<close>. The Draw slot with the next
  draw probability, at position 1, has a match that suggests \<open>L\<close>; reverting it
  gives \<open>EMPATES_MAX\<close> draws. The add path does what the claim says
  (\<open>ajustarEmpates_faltantes\<close>), and so does the remove path where no Draw
  slot's match suggests a draw (\<open>ajustarEmpates_sobrantes\<close>).
\<close>

theorem ajustarEmpates_sobrante_mal_elegido:
  "crearParSatelites partidos_mixtos (partidosDivisor_de partidos_mixtos) 0 random_par
     = Inr ([E, L, E, E, E, E, E, L, L, L, L, L, L, L],
            [E, E, E, E, E, E, E, L, L, L, L, L, L, L])
   \<and> ajustarEmpates [E, E, E, E, E, E, E, L, L, L, L, L, L, L] partidos_mixtos
       = Inr [E, E, E, E, E, E, E, L, L, L, L, L, L, L]
   \<and> empates [E, E, E, E, E, E, E, L, L, L, L, L, L, L] = 7
   \<and> \<not> 7 \<le> EMPATES_MAX
   \<and> prob_empate (partidos_mixtos ! 0) < prob_empate (partidos_mixtos ! 1)
   \<and> resultadoSugerido (partidos_mixtos ! 0) = E
   \<and> resultadoSugerido (partidos_mixtos ! 1) = L
   \<and> empates ([E, E, E, E, E, E, E, L, L, L, L, L, L, L]
                [1 := resultadoSugerido (partidos_mixtos ! 1)]) = EMPATES_MAX"
proof -
  have "prob_empate (partidos_mixtos ! 0) < prob_empate (partidos_mixtos ! 1)
   \<and> resultadoSugerido (partidos_mixtos ! 0) = E
   \<and> resultadoSugerido (partidos_mixtos ! 1) = L"
    unfolding partidos_mixtos_eval by simp
  then show ?thesis
    by (simp add: crearParSatelites_mixtos ajustarEmpates_mixtos_B empates_def EMPATES_MAX_def)
qed

section \<open>Satellite pairs\<close>

text \<open>
  The pivot that \<^verbatim>\<open>generateSatelliteQuinielas\<close> hands over lies inside the list of
  matches, and an entry of \<open>partidosDivisor\<close> points to a \<open>Divisor\<close> match.
\<close>

lemma index_extend: "index (partidoClasificado.extend p (partidoDivisor.fields i)) = i"
  by (simp add: partidoClasificado.extend_def partidoDivisor.fields_def)

lemma partidosDivisor_de_index:
  assumes "d \<in> set (partidosDivisor_de ps)"
  shows "index d < length ps \<and> clasificacion (ps ! index d) = Divisor"
proof -
  from assms obtain i p where ip: "(i, p) \<in> set (enumerate 0 ps)"
    and d: "d = partidoClasificado.extend p (partidoDivisor.fields i)"
    and c: "clasificacion d = Divisor"
    by (auto simp: partidosDivisor_de_def)
  from ip have i: "i < length ps" and p: "p = ps ! i"
    by (auto simp: in_set_enumerate_eq)
  have "clasificacion d = clasificacion p"
    unfolding d by (simp add: partidoClasificado.extend_def partidoDivisor.fields_def)
  with c i p d show ?thesis by (simp add: index_extend)
qed

lemma partidoPrincipal_en_rango:
  assumes "ps \<noteq> []"
  shows "partidoPrincipal (partidosDivisor_de ps) parId < length ps"
proof (cases "partidosDivisor_de ps = []")
  case True
  with assms show ?thesis by (simp add: partidoPrincipal_def)
next
  case False
  then have "partidosDivisor_de ps ! (parId mod length (partidosDivisor_de ps))
      \<in> set (partidosDivisor_de ps)"
    by simp
  from partidosDivisor_de_index [OF this] False show ?thesis
    by (simp add: partidoPrincipal_def)
qed

lemma sugerido_neq_alternativo:
  assumes "\<forall>k'. k' \<noteq> k \<longrightarrow> probs_de p k' < probs_de p k"
  shows "getResultadoSugerido p \<noteq> getResultadoAlternativo p"
  using assms [rule_format, of L] assms [rule_format, of E] assms [rule_format, of V]
  by (cases k)
     (auto simp: getResultadoAlternativo_cases getResultadoSugerido_cases probs_de_def Let_def)

lemma parQuinielas_length:
  "parQuinielas pv rnd ps = (qa, qb) \<Longrightarrow> length qa = length ps \<and> length qb = length ps"
  by (auto simp: parQuinielas_def Let_def)

lemma parQuinielas_nth:
  assumes "parQuinielas pv rnd ps = (qa, qb)" and "i < length ps"
  shows "(qa ! i, qb ! i) = parSlot pv rnd i (ps ! i)"
  using assms by (auto simp: parQuinielas_def Let_def nth_enumerate_eq)

text \<open>
  C4 (corrected). With the pivot inside the list of matches, the two tickets that
  \<open>crearParSatelites\<close> returns are \<open>ajustarEmpates\<close> of the two sequences it
  builds, taken separately. In the sequences the first holds the suggested and the second
  the alternative outcome at the pivot, and both hold the suggested outcome at every
  Anchor slot other than the pivot. In the returned tickets:
  \<^item> an Anchor slot other than the pivot holds the suggested outcome or \<open>E\<close>; it
    holds the suggested outcome in a ticket unless the sequence of that ticket has fewer
    than \<open>EMPATES_MIN\<close> draws, the suggested outcome is not \<open>E\<close> and the draw
    probability of the match is above 0.20. Where this exception applies to neither
    ticket the two agree at the slot;
  \<^item> the pivot of the first ticket holds the suggested outcome, with the same exception;
  \<^item> the pivot of the second ticket holds the alternative outcome unless its sequence has
    fewer than \<open>EMPATES_MIN\<close> draws, the alternative is not \<open>E\<close> and the draw
    probability is above 0.20, or its sequence has more than \<open>EMPATES_MAX\<close> draws,
    the alternative is \<open>E\<close> and the suggested outcome is not;
  \<^item> the suggested and the alternative outcome of the pivot are different when the
    suggested outcome is the one \<open>getResultadoSugerido\<close> gives and one outcome alone
    has the largest probability, so that the returned tickets differ at the pivot where
    they hold these two;
  \<^item> when both sequences have between \<open>EMPATES_MIN\<close> and \<open>EMPATES_MAX\<close> draws,
    the returned tickets are the two sequences.
\<close>

theorem crearParSatelites_par_devuelto:
  assumes pv: "pv = partidoPrincipal divs parId"
      and par: "parQuinielas pv rnd ps = (qa, qb)"
      and piv: "pv < length ps"
  shows "\<exists>a b. crearParSatelites ps divs parId rnd = Inr (a, b)
       \<and> ajustarEmpates qa ps = Inr a \<and> ajustarEmpates qb ps = Inr b
       \<and> length a = length ps \<and> length b = length ps
       \<and> qa ! pv = resultadoSugerido (ps ! pv)
       \<and> qb ! pv = getResultadoAlternativo (ps ! pv)
       \<and> (\<forall>i<length ps. i \<noteq> pv \<and> clasificacion (ps ! i) = Ancla \<longrightarrow>
             qa ! i = resultadoSugerido (ps ! i) \<and> qb ! i = resultadoSugerido (ps ! i)
           \<and> (a ! i = resultadoSugerido (ps ! i) \<or> a ! i = E)
           \<and> (b ! i = resultadoSugerido (ps ! i) \<or> b ! i = E)
           \<and> (EMPATES_MIN \<le> empates qa \<or> resultadoSugerido (ps ! i) = E
                 \<or> prob_empate (ps ! i) \<le> 0.20 \<longrightarrow> a ! i = resultadoSugerido (ps ! i))
           \<and> (EMPATES_MIN \<le> empates qb \<or> resultadoSugerido (ps ! i) = E
                 \<or> prob_empate (ps ! i) \<le> 0.20 \<longrightarrow> b ! i = resultadoSugerido (ps ! i))
           \<and> ((EMPATES_MIN \<le> empates qa \<and> EMPATES_MIN \<le> empates qb)
                 \<or> resultadoSugerido (ps ! i) = E \<or> prob_empate (ps ! i) \<le> 0.20
               \<longrightarrow> a ! i = b ! i))
       \<and> (a ! pv = resultadoSugerido (ps ! pv) \<or> a ! pv = E)
       \<and> (EMPATES_MIN \<le> empates qa \<or> resultadoSugerido (ps ! pv) = E
             \<or> prob_empate (ps ! pv) \<le> 0.20 \<longrightarrow> a ! pv = resultadoSugerido (ps ! pv))
       \<and> ((EMPATES_MIN \<le> empates qb \<or> getResultadoAlternativo (ps ! pv) = E
              \<or> prob_empate (ps ! pv) \<le> 0.20)
            \<and> (empates qb \<le> EMPATES_MAX \<or> getResultadoAlternativo (ps ! pv) \<noteq> E
              \<or> resultadoSugerido (ps ! pv) = E)
           \<longrightarrow> b ! pv = getResultadoAlternativo (ps ! pv))
       \<and> (resultadoSugerido (ps ! pv) = getResultadoSugerido (ps ! pv)
            \<and> (\<exists>k. \<forall>k'. k' \<noteq> k \<longrightarrow> probs_de (ps ! pv) k' < probs_de (ps ! pv) k)
           \<longrightarrow> qa ! pv \<noteq> qb ! pv
             \<and> (a ! pv = resultadoSugerido (ps ! pv)
                 \<and> b ! pv = getResultadoAlternativo (ps ! pv) \<longrightarrow> a ! pv \<noteq> b ! pv))
       \<and> (EMPATES_MIN \<le> empates qa \<and> empates qa \<le> EMPATES_MAX
            \<and> EMPATES_MIN \<le> empates qb \<and> empates qb \<le> EMPATES_MAX
           \<longrightarrow> a = qa \<and> b = qb)"
proof -
  from parQuinielas_length [OF par] have la: "length qa = length ps" and lb: "length qb = length ps"
    by simp_all
  from ajustarEmpates_por_slot [of qa ps] la obtain a where
    a: "ajustarEmpates qa ps = Inr a" and lena: "length a = length ps" by auto
  from ajustarEmpates_por_slot [of qb ps] lb obtain b where
    b: "ajustarEmpates qb ps = Inr b" and lenb: "length b = length ps" by auto
  have ret: "crearParSatelites ps divs parId rnd = Inr (a, b)"
    using par pv a b by (simp add: crearParSatelites_def)
  have slot: "(qa ! pv, qb ! pv) = parSlot pv rnd pv (ps ! pv)"
    using parQuinielas_nth [OF par piv] .
  then have qapv: "qa ! pv = resultadoSugerido (ps ! pv)"
    and qbpv: "qb ! pv = getResultadoAlternativo (ps ! pv)"
    by (simp_all add: parSlot_def)
  have anc: "qa ! i = resultadoSugerido (ps ! i) \<and> qb ! i = resultadoSugerido (ps ! i)"
    if "i < length ps" "i \<noteq> pv" "clasificacion (ps ! i) = Ancla" for i
  proof -
    have "(qa ! i, qb ! i) = parSlot pv rnd i (ps ! i)"
      using parQuinielas_nth [OF par that(1)] .
    then show ?thesis using that by (simp add: parSlot_def)
  qed
  have sa: "(a ! i = resultadoSugerido (ps ! i) \<or> a ! i = E)
       \<and> (EMPATES_MIN \<le> empates qa \<or> resultadoSugerido (ps ! i) = E
            \<or> prob_empate (ps ! i) \<le> 0.20 \<longrightarrow> a ! i = resultadoSugerido (ps ! i))"
    if "i < length ps" "qa ! i = resultadoSugerido (ps ! i)" for i
    using ajustarEmpates_sugerido [of qa ps a i] la a that by simp
  have sb: "(b ! i = resultadoSugerido (ps ! i) \<or> b ! i = E)
       \<and> (EMPATES_MIN \<le> empates qb \<or> resultadoSugerido (ps ! i) = E
            \<or> prob_empate (ps ! i) \<le> 0.20 \<longrightarrow> b ! i = resultadoSugerido (ps ! i))"
    if "i < length ps" "qb ! i = resultadoSugerido (ps ! i)" for i
    using ajustarEmpates_sugerido [of qb ps b i] lb b that by simp
  have anclas: "\<forall>i<length ps. i \<noteq> pv \<and> clasificacion (ps ! i) = Ancla \<longrightarrow>
             qa ! i = resultadoSugerido (ps ! i) \<and> qb ! i = resultadoSugerido (ps ! i)
           \<and> (a ! i = resultadoSugerido (ps ! i) \<or> a ! i = E)
           \<and> (b ! i = resultadoSugerido (ps ! i) \<or> b ! i = E)
           \<and> (EMPATES_MIN \<le> empates qa \<or> resultadoSugerido (ps ! i) = E
                 \<or> prob_empate (ps ! i) \<le> 0.20 \<longrightarrow> a ! i = resultadoSugerido (ps ! i))
           \<and> (EMPATES_MIN \<le> empates qb \<or> resultadoSugerido (ps ! i) = E
                 \<or> prob_empate (ps ! i) \<le> 0.20 \<longrightarrow> b ! i = resultadoSugerido (ps ! i))
           \<and> ((EMPATES_MIN \<le> empates qa \<and> EMPATES_MIN \<le> empates qb)
                 \<or> resultadoSugerido (ps ! i) = E \<or> prob_empate (ps ! i) \<le> 0.20
               \<longrightarrow> a ! i = b ! i)"
  proof (intro allI impI)
    fix i assume i: "i < length ps" and h: "i \<noteq> pv \<and> clasificacion (ps ! i) = Ancla"
    from anc [OF i] h have q: "qa ! i = resultadoSugerido (ps ! i)"
      "qb ! i = resultadoSugerido (ps ! i)" by simp_all
    from q sa [OF i q(1)] sb [OF i q(2)]
    show "qa ! i = resultadoSugerido (ps ! i) \<and> qb ! i = resultadoSugerido (ps ! i)
           \<and> (a ! i = resultadoSugerido (ps ! i) \<or> a ! i = E)
           \<and> (b ! i = resultadoSugerido (ps ! i) \<or> b ! i = E)
           \<and> (EMPATES_MIN \<le> empates qa \<or> resultadoSugerido (ps ! i) = E
                 \<or> prob_empate (ps ! i) \<le> 0.20 \<longrightarrow> a ! i = resultadoSugerido (ps ! i))
           \<and> (EMPATES_MIN \<le> empates qb \<or> resultadoSugerido (ps ! i) = E
                 \<or> prob_empate (ps ! i) \<le> 0.20 \<longrightarrow> b ! i = resultadoSugerido (ps ! i))
           \<and> ((EMPATES_MIN \<le> empates qa \<and> EMPATES_MIN \<le> empates qb)
                 \<or> resultadoSugerido (ps ! i) = E \<or> prob_empate (ps ! i) \<le> 0.20
               \<longrightarrow> a ! i = b ! i)"
      by auto
  qed
  note apv = sa [OF piv qapv]
  have bpv: "b ! pv = getResultadoAlternativo (ps ! pv)"
    if "EMPATES_MIN \<le> empates qb \<or> getResultadoAlternativo (ps ! pv) = E
              \<or> prob_empate (ps ! pv) \<le> 0.20"
      and "empates qb \<le> EMPATES_MAX \<or> getResultadoAlternativo (ps ! pv) \<noteq> E
              \<or> resultadoSugerido (ps ! pv) = E"
    using ajustarEmpates_conserva [of qb ps b pv] lb b piv that qbpv by simp
  have dif: "qa ! pv \<noteq> qb ! pv
             \<and> (a ! pv = resultadoSugerido (ps ! pv)
                 \<and> b ! pv = getResultadoAlternativo (ps ! pv) \<longrightarrow> a ! pv \<noteq> b ! pv)"
    if "resultadoSugerido (ps ! pv) = getResultadoSugerido (ps ! pv)"
      and "\<exists>k. \<forall>k'. k' \<noteq> k \<longrightarrow> probs_de (ps ! pv) k' < probs_de (ps ! pv) k"
  proof -
    from that sugerido_neq_alternativo
    have "resultadoSugerido (ps ! pv) \<noteq> getResultadoAlternativo (ps ! pv)" by metis
    with qapv qbpv show ?thesis by simp
  qed
  have rango: "a = qa \<and> b = qb"
    if "EMPATES_MIN \<le> empates qa" "empates qa \<le> EMPATES_MAX"
       "EMPATES_MIN \<le> empates qb" "empates qb \<le> EMPATES_MAX"
    using that a b by (simp add: ajustarEmpates_en_rango)
  from ret a b lena lenb qapv qbpv anclas apv bpv dif rango show ?thesis by blast
qed

lemma partidos_par_eval:
  "partidos_par =
     [\<lparr>prob_local = 0.45, prob_empate = 0.35, prob_visitante = 0.20,
        clasificacion = Divisor, resultadoSugerido = L\<rparr>,
      \<lparr>prob_local = 0.2, prob_empate = 0.7, prob_visitante = 0.1,
        clasificacion = Ancla, resultadoSugerido = E\<rparr>,
      \<lparr>prob_local = 0.2, prob_empate = 0.7, prob_visitante = 0.1,
        clasificacion = Ancla, resultadoSugerido = E\<rparr>,
      \<lparr>prob_local = 0.65, prob_empate = 0.30, prob_visitante = 0.05,
        clasificacion = Ancla, resultadoSugerido = L\<rparr>,
      \<lparr>prob_local = 0.55, prob_empate = 0.25, prob_visitante = 0.20,
        clasificacion = Divisor, resultadoSugerido = L\<rparr>]
     @ replicate 9 \<lparr>prob_local = 0.8, prob_empate = 0.1, prob_visitante = 0.1,
                     clasificacion = Ancla, resultadoSugerido = L\<rparr>"
  by (simp add: partidos_par_def clasificado_eval)

lemma partidosDivisor_de_par: "map index (partidosDivisor_de partidos_par) = [0, 4]"
  unfolding partidos_par_eval
  by (simp add: partidosDivisor_de_def numeral_eq_Suc partidoClasificado.extend_def
      partidoDivisor.fields_def)

lemma partidoPrincipal_par: "partidoPrincipal (partidosDivisor_de partidos_par) 0 = 0"
proof -
  obtain d d' where "partidosDivisor_de partidos_par = [d, d']" and "index d = 0"
    using partidosDivisor_de_par by auto
  then show ?thesis by (simp add: partidoPrincipal_def)
qed

lemma parQuinielas_par:
  "parQuinielas 0 random_par partidos_par
     = ([L, E, E, L, L, L, L, L, L, L, L, L, L, L], [E, E, E, L, E, L, L, L, L, L, L, L, L, L])"
  unfolding partidos_par_eval
  by (simp add: parQuinielas_def parSlot_def random_par_def numeral_eq_Suc
      getResultadoAlternativo_cases Let_def)

lemma ajustarEmpates_par_A:
  "ajustarEmpates [L, E, E, L, L, L, L, L, L, L, L, L, L, L] partidos_par
     = Inr [E, E, E, E, L, L, L, L, L, L, L, L, L, L]"
  unfolding partidos_par_eval
  by (simp add: ajustarEmpates_def EMPATES_MIN_def EMPATES_MAX_def leer_def sort_desc_def
      numeral_eq_Suc)

lemma ajustarEmpates_par_B:
  "ajustarEmpates [E, E, E, L, E, L, L, L, L, L, L, L, L, L] partidos_par
     = Inr [E, E, E, L, E, L, L, L, L, L, L, L, L, L]"
  by (simp add: ajustarEmpates_def EMPATES_MIN_def EMPATES_MAX_def)

theorem crearParSatelites_par_devuelto_witness:
  "0 = partidoPrincipal (partidosDivisor_de partidos_par) 0
   \<and> parQuinielas 0 random_par partidos_par
       = ([L, E, E, L, L, L, L, L, L, L, L, L, L, L], [E, E, E, L, E, L, L, L, L, L, L, L, L, L])
   \<and> 0 < length partidos_par
   \<and> clasificacion (partidos_par ! 1) = Ancla
   \<and> resultadoSugerido (partidos_par ! 1) = E
   \<and> crearParSatelites partidos_par (partidosDivisor_de partidos_par) 0 random_par
       = Inr ([E, E, E, E, L, L, L, L, L, L, L, L, L, L],
              [E, E, E, L, E, L, L, L, L, L, L, L, L, L])
   \<and> [E, E, E, E, L, L, L, L, L, L, L, L, L, L] ! 1 = resultadoSugerido (partidos_par ! 1)
   \<and> [E, E, E, L, E, L, L, L, L, L, L, L, L, L] ! 1 = resultadoSugerido (partidos_par ! 1)"
proof -
  have h1: "0 = partidoPrincipal (partidosDivisor_de partidos_par) 0"
    by (simp add: partidoPrincipal_par)
  have h3: "0 < length partidos_par"
    by (simp add: partidos_par_def)
  have h4: "clasificacion (partidos_par ! 1) = Ancla" "resultadoSugerido (partidos_par ! 1) = E"
    "1 < length partidos_par"
    unfolding partidos_par_eval by simp_all
  have h5: "(1::nat) \<noteq> 0 \<and> clasificacion (partidos_par ! 1) = Ancla"
    using h4 by simp
  from crearParSatelites_par_devuelto [OF h1 parQuinielas_par h3] show ?thesis
  proof (elim exE conjE)
    fix a b
    assume ret: "crearParSatelites partidos_par (partidosDivisor_de partidos_par) 0 random_par
            = Inr (a, b)"
      and a: "ajustarEmpates [L, E, E, L, L, L, L, L, L, L, L, L, L, L] partidos_par = Inr a"
      and b: "ajustarEmpates [E, E, E, L, E, L, L, L, L, L, L, L, L, L] partidos_par = Inr b"
      and anc: "\<forall>i<length partidos_par. i \<noteq> 0 \<and> clasificacion (partidos_par ! i) = Ancla \<longrightarrow>
             [L, E, E, L, L, L, L, L, L, L, L, L, L, L] ! i = resultadoSugerido (partidos_par ! i)
           \<and> [E, E, E, L, E, L, L, L, L, L, L, L, L, L] ! i = resultadoSugerido (partidos_par ! i)
           \<and> (a ! i = resultadoSugerido (partidos_par ! i) \<or> a ! i = E)
           \<and> (b ! i = resultadoSugerido (partidos_par ! i) \<or> b ! i = E)
           \<and> (EMPATES_MIN \<le> empates [L, E, E, L, L, L, L, L, L, L, L, L, L, L]
                 \<or> resultadoSugerido (partidos_par ! i) = E
                 \<or> prob_empate (partidos_par ! i) \<le> 0.20
               \<longrightarrow> a ! i = resultadoSugerido (partidos_par ! i))
           \<and> (EMPATES_MIN \<le> empates [E, E, E, L, E, L, L, L, L, L, L, L, L, L]
                 \<or> resultadoSugerido (partidos_par ! i) = E
                 \<or> prob_empate (partidos_par ! i) \<le> 0.20
               \<longrightarrow> b ! i = resultadoSugerido (partidos_par ! i))
           \<and> ((EMPATES_MIN \<le> empates [L, E, E, L, L, L, L, L, L, L, L, L, L, L]
                  \<and> EMPATES_MIN \<le> empates [E, E, E, L, E, L, L, L, L, L, L, L, L, L])
                 \<or> resultadoSugerido (partidos_par ! i) = E
                 \<or> prob_empate (partidos_par ! i) \<le> 0.20
               \<longrightarrow> a ! i = b ! i)"
    from a have a': "a = [E, E, E, E, L, L, L, L, L, L, L, L, L, L]"
      by (simp add: ajustarEmpates_par_A)
    from b have b': "b = [E, E, E, L, E, L, L, L, L, L, L, L, L, L]"
      by (simp add: ajustarEmpates_par_B)
    from anc [rule_format, OF h4(3) h5] h4(2)
    have s: "a ! 1 = resultadoSugerido (partidos_par ! 1)"
      "b ! 1 = resultadoSugerido (partidos_par ! 1)"
      by blast+
    from ret have r: "crearParSatelites partidos_par (partidosDivisor_de partidos_par) 0 random_par
       = Inr ([E, E, E, E, L, L, L, L, L, L, L, L, L, L],
              [E, E, E, L, E, L, L, L, L, L, L, L, L, L])"
      unfolding a' b' .
    from s have s': "[E, E, E, E, L, L, L, L, L, L, L, L, L, L] ! 1 = resultadoSugerido (partidos_par ! 1)"
      "[E, E, E, L, E, L, L, L, L, L, L, L, L, L] ! 1 = resultadoSugerido (partidos_par ! 1)"
      unfolding a' b' .
    from h1 parQuinielas_par h3 h4(1,2) r s' show ?thesis
      by (intro conjI)
  qed
qed

text \<open>
  Position 0 is the pivot and position 3 an anchor. Before the adjustment the two
  sequences differ at the pivot and agree at the anchor. The first sequence has two
  draws and the adjustment turns its pivot and its anchor slot into \<open>E\<close>; the second
  has four draws and stays. The returned tickets agree at the pivot and differ at the
  anchor.
\<close>

theorem crearParSatelites_counterexample:
  "partidoPrincipal (partidosDivisor_de partidos_par) 0 = 0
   \<and> clasificacion (partidos_par ! 3) = Ancla
   \<and> crearParSatelites partidos_par (partidosDivisor_de partidos_par) 0 random_par
       = Inr ([E, E, E, E, L, L, L, L, L, L, L, L, L, L],
              [E, E, E, L, E, L, L, L, L, L, L, L, L, L])
   \<and> [E, E, E, E, L, L, L, L, L, L, L, L, L, L] ! 0
       = [E, E, E, L, E, L, L, L, L, L, L, L, L, L] ! 0
   \<and> [E, E, E, E, L, L, L, L, L, L, L, L, L, L] ! 3
       \<noteq> [E, E, E, L, E, L, L, L, L, L, L, L, L, L] ! 3"
proof -
  have "clasificacion (partidos_par ! 3) = Ancla"
    unfolding partidos_par_eval by simp
  moreover have "crearParSatelites partidos_par (partidosDivisor_de partidos_par) 0 random_par
       = Inr ([E, E, E, E, L, L, L, L, L, L, L, L, L, L],
              [E, E, E, L, E, L, L, L, L, L, L, L, L, L])"
    by (simp only: crearParSatelites_def partidoPrincipal_par parQuinielas_par
        ajustarEmpates_par_A ajustarEmpates_par_B prod.case sum.case)
  ultimately show ?thesis by (simp add: partidoPrincipal_par)
qed

text \<open>
  A pivot whose two largest probabilities are equal: the suggested outcome and the
  alternative outcome are the same, so the two sequences agree at the pivot from the
  start.
\<close>

lemma sugerido_eq_alternativo_empate:
  "clasificacion (clasificado 0.45 0.10 0.45) = Divisor
   \<and> resultadoSugerido (clasificado 0.45 0.10 0.45) = V
   \<and> getResultadoAlternativo (clasificado 0.45 0.10 0.45) = V"
  by (simp add: clasificado_eval getResultadoAlternativo_cases)

section \<open>Concentration\<close>

lemma conteos_foldl_L:
  assumes "\<forall>q\<in>set qs. resultados q \<noteq> [] \<and> resultados q ! 0 = L"
  shows "foldl (\<lambda>conteos q.
              if 0 < length (resultados q)
              then conteos(resultados q ! 0 := conteos (resultados q ! 0) + 1)
              else conteos) c qs = c(L := c L + length qs)"
  using assms
proof (induction qs arbitrary: c)
  case Nil
  then show ?case by simp
next
  case (Cons q qs)
  then show ?case by (simp add: fun_eq_iff)
qed

lemma conteos_de_L:
  assumes "\<forall>q\<in>set qs. resultados q \<noteq> [] \<and> resultados q ! 0 = L"
  shows "conteos_de qs 0 = (\<lambda>k. 0)(L := length qs)"
  unfolding conteos_de_def using conteos_foldl_L [OF assms, of "\<lambda>k. 0"] by simp

lemma concentracionPartido_L:
  assumes "\<forall>q\<in>set qs. resultados q \<noteq> [] \<and> resultados q ! 0 = L" and "qs \<noteq> []"
  shows "concentracionPartido qs 0 = [Concentracion 1 1 L CONCENTRACION_MAX_INICIAL]"
  using assms(2)
  by (simp add: concentracionPartido_def conteos_de_L [OF assms(1)] Let_def reduce_keys_def
       CONCENTRACION_MAX_INICIAL_def)

lemma concentracionesProblematicas_L:
  assumes "\<forall>q\<in>set qs. resultados q \<noteq> [] \<and> resultados q ! 0 = L" and "qs \<noteq> []"
  shows "concentracionesProblematicas qs
     = Concentracion 1 1 L CONCENTRACION_MAX_INICIAL
       # concat (map (concentracionPartido qs) [1..<14])"
proof -
  have "[0..<14] = 0 # [1..<14]" by (simp add: upt_conv_Cons)
  then show ?thesis
    by (simp add: concentracionesProblematicas_def concentracionPartido_L [OF assms])
qed

lemma calcularMetricas_mensajes:
  "warnings (calcularMetricas qs v) = warnings v \<and> errores (calcularMetricas qs v) = errores v
   \<and> es_valido (calcularMetricas qs v) = es_valido v"
  by (simp add: calcularMetricas_def Let_def)

lemma validatePortfolio_mensajes:
  assumes "qs \<noteq> []"
  shows "warnings (validatePortfolio qs)
           = warnings (validarConcentracion qs
               (validarEmpatesIndividuales qs (validarDistribucionGlobal qs validacion_inicial)))
       \<and> set (errores (validarConcentracion qs
               (validarEmpatesIndividuales qs (validarDistribucionGlobal qs validacion_inicial))))
           \<subseteq> set (errores (validatePortfolio qs))"
  using assms by (auto simp: validatePortfolio_def Let_def calcularMetricas_mensajes)

text \<open>
  C5 (corrected). For a portfolio of 20 tickets that all pick \<open>L\<close> on slot 1, the
  concentration at slot 1 is 1, above the limit 0.60 of the first three slots, and the
  entry for slot 1 is the first of the list of violations. The validator appends that list
  to the warnings when it has at most three entries; only when more than three slots
  violate does it append one aggregated error, made of the first three entries. The
  report of \<open>validatePortfolio\<close> holds the entry for slot 1 among its warnings in the
  first case, and the aggregated error among its errors in the second.
\<close>

theorem validarConcentracion_partido_1:
  assumes "length qs = 20"
      and "\<forall>q\<in>set qs. resultados q \<noteq> [] \<and> resultados q ! 0 = L"
  shows "hd (concentracionesProblematicas qs) = Concentracion 1 1 L CONCENTRACION_MAX_INICIAL
     \<and> concentracionesProblematicas qs \<noteq> []
     \<and> CONCENTRACION_MAX_INICIAL < 1
     \<and> validarConcentracion qs v =
         (if length (concentracionesProblematicas qs) > 3
          then v\<lparr>errores := errores v
                   @ [MultiplesViolaciones (take 3 (concentracionesProblematicas qs))]\<rparr>
          else v\<lparr>warnings := warnings v @ concentracionesProblematicas qs\<rparr>)
     \<and> (if length (concentracionesProblematicas qs) > 3
        then MultiplesViolaciones (take 3 (concentracionesProblematicas qs))
               \<in> set (errores (validatePortfolio qs))
        else Concentracion 1 1 L CONCENTRACION_MAX_INICIAL
               \<in> set (warnings (validatePortfolio qs)))"
proof -
  from assms(1) have ne: "qs \<noteq> []" by auto
  note cp = concentracionesProblematicas_L [OF assms(2) ne]
  have val: "validarConcentracion qs w =
         (if length (concentracionesProblematicas qs) > 3
          then w\<lparr>errores := errores w
                   @ [MultiplesViolaciones (take 3 (concentracionesProblematicas qs))]\<rparr>
          else w\<lparr>warnings := warnings w @ concentracionesProblematicas qs\<rparr>)" for w
    using ne by (simp add: cp validarConcentracion_def Let_def)
  have hd: "hd (concentracionesProblematicas qs) = Concentracion 1 1 L CONCENTRACION_MAX_INICIAL"
    and nn: "concentracionesProblematicas qs \<noteq> []"
    by (simp_all add: cp)
  have lim: "CONCENTRACION_MAX_INICIAL < 1"
    by (simp add: CONCENTRACION_MAX_INICIAL_def)
  let ?w = "validarEmpatesIndividuales qs (validarDistribucionGlobal qs validacion_inicial)"
  note vp = validatePortfolio_mensajes [OF ne]
  have rep: "if length (concentracionesProblematicas qs) > 3
        then MultiplesViolaciones (take 3 (concentracionesProblematicas qs))
               \<in> set (errores (validatePortfolio qs))
        else Concentracion 1 1 L CONCENTRACION_MAX_INICIAL
               \<in> set (warnings (validatePortfolio qs))"
  proof (cases "length (concentracionesProblematicas qs) > 3")
    case True
    then have "MultiplesViolaciones (take 3 (concentracionesProblematicas qs))
        \<in> set (errores (validarConcentracion qs ?w))"
      by (simp add: val)
    with vp True show ?thesis by auto
  next
    case False
    then have "Concentracion 1 1 L CONCENTRACION_MAX_INICIAL
        \<in> set (warnings (validarConcentracion qs ?w))"
      by (simp add: val [of ?w]) (simp add: cp)
    with vp False show ?thesis by simp
  qed
  from hd nn lim val [of v] rep show ?thesis by blast
qed

lemma cartera_L_eval:
  "cartera_L =
     [boleto [L, E, V, L, E, V, L, E, V, L, E, V, L],
      boleto [E, V, L, E, V, L, E, V, L, E, V, L, E],
      boleto [V, L, E, V, L, E, V, L, E, V, L, E, V],
      boleto [L, E, V, L, E, V, L, E, V, L, E, V, L],
      boleto [E, V, L, E, V, L, E, V, L, E, V, L, E],
      boleto [V, L, E, V, L, E, V, L, E, V, L, E, V],
      boleto [L, E, V, L, E, V, L, E, V, L, E, V, L],
      boleto [E, V, L, E, V, L, E, V, L, E, V, L, E],
      boleto [V, L, E, V, L, E, V, L, E, V, L, E, V],
      boleto [L, E, V, L, E, V, L, E, V, L, E, V, L],
      boleto [E, V, L, E, V, L, E, V, L, E, V, L, E],
      boleto [V, L, E, V, L, E, V, L, E, V, L, E, V],
      boleto [L, E, V, L, E, V, L, E, V, L, E, V, L],
      boleto [E, V, L, E, V, L, E, V, L, E, V, L, E],
      boleto [V, L, E, V, L, E, V, L, E, V, L, E, V],
      boleto [L, E, V, L, E, V, L, E, V, L, E, V, L],
      boleto [E, V, L, E, V, L, E, V, L, E, V, L, E],
      boleto [V, L, E, V, L, E, V, L, E, V, L, E, V],
      boleto [L, E, V, L, E, V, L, E, V, L, E, V, L],
      boleto [E, V, L, E, V, L, E, V, L, E, V, L, E]]"
  by (simp add: cartera_L_def numeral_eq_Suc)

lemma cartera_L_forma:
  "length cartera_L = 20"
  "\<forall>q\<in>set cartera_L. resultados q \<noteq> [] \<and> resultados q ! 0 = L"
  unfolding cartera_L_eval by (simp_all add: boleto_def)

lemma upt_1_14: "[1..<14] = [1, 2, 3, 4, 5, 6, 7, 8, 9, 10, 11, 12, 13]"
  by code_simp

lemma concentracionPartido_cartera_L:
  "concat (map (concentracionPartido cartera_L) [1..<14]) = []"
  unfolding upt_1_14 cartera_L_eval
  by (simp add: concentracionPartido_def conteos_de_def boleto_def Let_def
      CONCENTRACION_MAX_INICIAL_def CONCENTRACION_MAX_GENERAL_def)

lemma concentracionesProblematicas_cartera_L:
  "concentracionesProblematicas cartera_L = [Concentracion 1 1 L CONCENTRACION_MAX_INICIAL]"
proof -
  have ne: "cartera_L \<noteq> []" using cartera_L_forma(1) by auto
  show ?thesis
    by (simp only: concentracionesProblematicas_L [OF cartera_L_forma(2) ne]
        concentracionPartido_cartera_L)
qed

lemma conteos_globales_cartera_L:
  "conteos_globales cartera_L L = 107 \<and> conteos_globales cartera_L E = 87
   \<and> conteos_globales cartera_L V = 86"
  unfolding cartera_L_eval
  by (simp add: conteos_globales_def boleto_def)

lemma validarDistribucionGlobal_cartera_L:
  "warnings (validarDistribucionGlobal cartera_L v) = warnings v
   \<and> errores (validarDistribucionGlobal cartera_L v) = errores v
   \<and> es_valido (validarDistribucionGlobal cartera_L v) = es_valido v"
  by (simp add: validarDistribucionGlobal_def Let_def conteos_globales_cartera_L
      cartera_L_forma(1) revisarProporcion_def RANGOS_HISTORICOS_def)

lemma quinielasProblematicas_cartera_L: "quinielasProblematicas cartera_L = []"
  unfolding cartera_L_eval
  by (simp add: quinielasProblematicas_def boleto_def empates_def EMPATES_MIN_def
      EMPATES_MAX_def)

lemma validarEmpatesIndividuales_cartera_L:
  "warnings (validarEmpatesIndividuales cartera_L v) = warnings v
   \<and> errores (validarEmpatesIndividuales cartera_L v) = errores v
   \<and> es_valido (validarEmpatesIndividuales cartera_L v) = es_valido v"
  by (simp add: validarEmpatesIndividuales_def Let_def quinielasProblematicas_cartera_L)

theorem validarConcentracion_partido_1_witness:
  "length cartera_L = 20
   \<and> list_all (\<lambda>q. resultados q \<noteq> [] \<and> resultados q ! 0 = L) cartera_L
   \<and> hd (concentracionesProblematicas cartera_L)
       = Concentracion 1 1 L CONCENTRACION_MAX_INICIAL
   \<and> validarConcentracion cartera_L validacion_inicial
       = validacion_inicial\<lparr>warnings := [Concentracion 1 1 L CONCENTRACION_MAX_INICIAL]\<rparr>
   \<and> Concentracion 1 1 L CONCENTRACION_MAX_INICIAL
       \<in> set (warnings (validatePortfolio cartera_L))"
  using validarConcentracion_partido_1 [OF cartera_L_forma, of validacion_inicial]
    cartera_L_forma
  by (simp add: concentracionesProblematicas_cartera_L validacion_inicial_def list_all_iff)

text \<open>
  Twenty tickets with \<open>L\<close> on slot 1, no other slot above its limit, shares of the
  three outcomes inside their historical ranges and four or five draws per ticket: the
  violation of slot 1 is the one warning of the report, its list of errors is empty, and
  the report is valid.
\<close>

theorem validatePortfolio_counterexample:
  "length cartera_L = 20
   \<and> list_all (\<lambda>q. resultados q ! 0 = L) cartera_L
   \<and> errores (validatePortfolio cartera_L) = []
   \<and> warnings (validatePortfolio cartera_L) = [Concentracion 1 1 L CONCENTRACION_MAX_INICIAL]
   \<and> es_valido (validatePortfolio cartera_L)"
proof -
  have ne: "cartera_L \<noteq> []" "length cartera_L \<noteq> 0" using cartera_L_forma(1) by auto
  let ?v = "validarEmpatesIndividuales cartera_L
              (validarDistribucionGlobal cartera_L validacion_inicial)"
  have v: "warnings ?v = []" "errores ?v = []" "es_valido ?v"
    by (simp_all add: validarEmpatesIndividuales_cartera_L validarDistribucionGlobal_cartera_L
        validacion_inicial_def)
  have c: "validarConcentracion cartera_L ?v
      = ?v\<lparr>warnings := [Concentracion 1 1 L CONCENTRACION_MAX_INICIAL]\<rparr>"
    using ne v by (simp add: validarConcentracion_def concentracionesProblematicas_cartera_L)
  show ?thesis
    using cartera_L_forma ne v
    by (simp add: validatePortfolio_def Let_def c calcularMetricas_mensajes list_all_iff)
qed

section \<open>Portfolio metrics\<close>

lemma foldl_prod:
  "foldl (\<lambda>acc prob. acc * (1 - prob)) a ps
     = a * prod_list (map (\<lambda>p. 1 - p) (ps :: real list))"
  by (induction ps arbitrary: a) (simp_all add: mult.assoc)

text \<open>
  C9 (confirmed). For a non-empty portfolio the metric \<open>prob_portafolio_11_plus\<close> is
  1 minus the product of \<open>1 - p\<close> over the per-ticket estimates \<open>p\<close> (a missing
  estimate counts as 0); for one ticket it is that ticket's estimate, and when all
  tickets have the estimate \<open>p\<close> it is \<open>1 - (1 - p) ^ k\<close> for \<open>k\<close> tickets. The
  arithmetic is exact.
\<close>

theorem calcularMetricas_prob_portafolio:
  assumes "qs \<noteq> []"
  shows "prob_portafolio_11_plus (metricas (calcularMetricas qs v))
           = Some (1 - prod_list (map (\<lambda>p. 1 - p) (probs11Plus qs)))
       \<and> (\<forall>q. qs = [q] \<longrightarrow>
            prob_portafolio_11_plus (metricas (calcularMetricas qs v))
              = Some (hd (probs11Plus qs)))
       \<and> (\<forall>p. (\<forall>x\<in>set (probs11Plus qs). x = p) \<longrightarrow>
            prob_portafolio_11_plus (metricas (calcularMetricas qs v))
              = Some (1 - (1 - p) ^ length qs))"
proof -
  have main: "prob_portafolio_11_plus (metricas (calcularMetricas qs v))
           = Some (1 - prod_list (map (\<lambda>p. 1 - p) (probs11Plus qs)))"
    using assms by (simp add: calcularMetricas_def Let_def foldl_prod)
  have one: "prob_portafolio_11_plus (metricas (calcularMetricas qs v))
           = Some (hd (probs11Plus qs))"
    if "qs = [q]" for q
    unfolding main using that by (simp add: probs11Plus_def)
  have same: "prob_portafolio_11_plus (metricas (calcularMetricas qs v))
           = Some (1 - (1 - p) ^ length qs)"
    if "\<forall>x\<in>set (probs11Plus qs). x = p" for p
  proof -
    have "map (\<lambda>p. 1 - p) (probs11Plus qs) = replicate (length qs) (1 - p)"
      using that by (simp add: map_replicate_const [symmetric] probs11Plus_def cong: map_cong)
    then show ?thesis unfolding main by (simp add: prod_list_replicate)
  qed
  show ?thesis using main one same by blast
qed

theorem calcularMetricas_prob_portafolio_witness:
  "cartera_estimada \<noteq> []
   \<and> list_all (\<lambda>x. x = 1 / 10) (probs11Plus cartera_estimada)
   \<and> prob_portafolio_11_plus (metricas (calcularMetricas cartera_estimada validacion_inicial))
       = Some (1 - (1 - 1 / 10) ^ 3)
   \<and> prob_portafolio_11_plus (metricas (calcularMetricas cartera_estimada validacion_inicial))
       = Some (271 / 1000)"
proof -
  have h: "cartera_estimada \<noteq> []"
    by (simp add: cartera_estimada_def)
  have p: "\<forall>x\<in>set (probs11Plus cartera_estimada). x = 1 / 10"
    by (simp add: cartera_estimada_def probs11Plus_def)
  have l: "length cartera_estimada = 3"
    by (simp add: cartera_estimada_def)
  from calcularMetricas_prob_portafolio [OF h, of validacion_inicial] p l
  have e: "prob_portafolio_11_plus (metricas (calcularMetricas cartera_estimada validacion_inicial))
       = Some (1 - (1 - 1 / 10) ^ 3)"
    by metis
  then have "prob_portafolio_11_plus (metricas (calcularMetricas cartera_estimada validacion_inicial))
       = Some (271 / 1000)"
    by (simp add: power3_eq_cube)
  with h p e show ?thesis by (simp add: list_all_iff)
qed

end
